theory Spec2Isabelle
  imports Complex_Main "HOL-Library.AList" "HOL-Library.Log_Nat" "HOL-Library.List_Lexorder"
    "HOL-Library.Product_Lexorder"
begin

section \<open>Strings\<close>

text \<open>
  A JavaScript string is modelled as a \<^typ>\<open>string\<close>: a list of code units, restricted
  to the range U+0000..U+00FF that \<^typ>\<open>char\<close> covers. The two built-in string methods
  that \<open>normalizeHex\<close> calls are written out on that range.
\<close>

definition isWhiteSpace :: "char \<Rightarrow> bool" where
  \<comment> \<open>The code units below U+0100 that \<open>String.prototype.trim\<close> removes:
      TAB, LF, VT, FF, CR, SPACE and NO-BREAK SPACE.\<close>
  "isWhiteSpace ch = ((of_char ch :: nat) \<in> {9, 10, 11, 12, 13, 32, 160})"

definition trim :: "string \<Rightarrow> string" where
  "trim s = rev (dropWhile isWhiteSpace (rev (dropWhile isWhiteSpace s)))"

definition toLowerChar :: "char \<Rightarrow> char" where
  \<comment> \<open>\<open>A\<close>..\<open>Z\<close> and the Latin-1 capitals U+00C0..U+00DE (without the multiplication
      sign U+00D7) move up by 32; every other code unit below U+0100 is kept.\<close>
  "toLowerChar ch =
     (let n = (of_char ch :: nat)
      in if (65 \<le> n \<and> n \<le> 90) \<or> (192 \<le> n \<and> n \<le> 222 \<and> n \<noteq> 215)
         then char_of (n + 32) else ch)"

definition toLowerCase :: "string \<Rightarrow> string" where
  "toLowerCase s = map toLowerChar s"

definition isHexDigit :: "char \<Rightarrow> bool" where
  \<comment> \<open>The character class \<open>[0-9a-f]\<close>.\<close>
  "isHexDigit ch = (ch \<in> set ''0123456789abcdef'')"

definition matchHex3 :: "string \<Rightarrow> bool" where
  \<comment> \<open>\<open>/^#[0-9a-f]{3}$/.test(h)\<close>\<close>
  "matchHex3 h = (length h = 4 \<and> hd h = CHR ''#'' \<and> list_all isHexDigit (tl h))"

definition matchHex6 :: "string \<Rightarrow> bool" where
  \<comment> \<open>\<open>/^#[0-9a-f]{6}$/.test(h)\<close>\<close>
  "matchHex6 h = (length h = 7 \<and> hd h = CHR ''#'' \<and> list_all isHexDigit (tl h))"

section \<open>Numbers\<close>

text \<open>
  A JavaScript number is an IEEE double. It is modelled as the real number it denotes;
  NaN, the infinities and the negative zero are outside the model. An arithmetic
  operation is the exact operation followed by the rounding to the nearest double, ties
  to the even mantissa. Doubles have 53 bits of mantissa; below 2 to the power -1022
  their spacing stays 2 to the power -1074. Overflow is not modelled.
\<close>

definition binade :: "real \<Rightarrow> int" where
  \<comment> \<open>For \<open>x > 0\<close>: the exponent \<open>e\<close> for which \<open>x\<close> is at least 2 to the power \<open>e\<close> and
      less than 2 to the power \<open>e + 1\<close>.\<close>
  "binade x = (if 1 \<le> x then bitlen \<lfloor>x\<rfloor> - 1 else - bitlen (\<lceil>1 / x\<rceil> - 1))"

definition ulp :: "real \<Rightarrow> real" where
  \<comment> \<open>The spacing of the doubles in the binade of \<open>x\<close>.\<close>
  "ulp x =
     (let k = max (binade \<bar>x\<bar>) (- 1022) - 52
      in if 0 \<le> k then 2 ^ nat k else 1 / 2 ^ nat (- k))"

definition roundEven :: "real \<Rightarrow> int" where
  \<comment> \<open>The nearest integer; a tie goes to the even one.\<close>
  "roundEven q =
     (let f = \<lfloor>q\<rfloor>; r = q - of_int f
      in if r < 1 / 2 then f else if 1 / 2 < r then f + 1 else if even f then f else f + 1)"

definition roundDouble :: "real \<Rightarrow> real" where
  "roundDouble x = (if x = 0 then 0 else of_int (roundEven (x / ulp x)) * ulp x)"

definition jsAdd :: "real \<Rightarrow> real \<Rightarrow> real" where
  \<comment> \<open>\<open>a + b\<close>\<close>
  "jsAdd a b = roundDouble (a + b)"

definition jsSub :: "real \<Rightarrow> real \<Rightarrow> real" where
  \<comment> \<open>\<open>a - b\<close>\<close>
  "jsSub a b = roundDouble (a - b)"

definition jsMul :: "real \<Rightarrow> real \<Rightarrow> real" where
  \<comment> \<open>\<open>a * b\<close>\<close>
  "jsMul a b = roundDouble (a * b)"

definition jsDiv :: "real \<Rightarrow> real \<Rightarrow> real" where
  \<comment> \<open>\<open>a / b\<close>, for \<open>b\<close> other than zero\<close>
  "jsDiv a b = roundDouble (a / b)"

definition jsRem :: "real \<Rightarrow> real \<Rightarrow> real" where
  \<comment> \<open>The operator \<open>%\<close>: the remainder of the division truncated towards zero, so the
      result has the sign of the dividend. The remainder of two doubles is a double: no
      rounding takes place. It is only used with the divisor 360.\<close>
  "jsRem x y = x - y * of_int (if 0 \<le> x / y then \<lfloor>x / y\<rfloor> else \<lceil>x / y\<rceil>)"

section \<open>The colour library\<close>

text \<open>
  \<open>ramp.ts\<close> imports \<open>parse\<close>, \<open>converter\<close>, \<open>clampGamut\<close> and \<open>formatHex\<close> from the
  package \<open>culori\<close>, which is not part of the repository. \<open>parse\<close>, the two converters
  and \<open>formatHex\<close> are parameters of the model: a record of functions over a type \<open>'c\<close>
  of the library's colour objects. A result \<open>undefined\<close> is \<^const>\<open>None\<close>; these four
  functions return and do not throw.
\<close>

record oklch =
  oklch_l :: "real option"
  oklch_c :: "real option"
  oklch_h :: "real option"

record 'c culori =
  parse :: "string \<Rightarrow> 'c option"
  toOklch :: "'c option \<Rightarrow> oklch option"
  toRgb :: "'c \<Rightarrow> 'c option"
  formatHex :: "'c \<Rightarrow> string option"

datatype error = Error string | TypeError

text \<open>
  \<open>clampGamut\<close> of culori does not take a colour. \<open>clampGamut(mode)\<close> takes the name of a
  colour space, looks it up in the library's table of modes, reads the property \<open>gamut\<close>
  of the entry and returns a function that clamps colours. \<open>toHexSafe\<close> calls it with the
  colour itself. As a key of the table an object is the string \<open>[object Object]\<close>, which
  names no mode: the entry is \<open>undefined\<close>, and reading its property throws a TypeError.
  So the call \<open>clampGamut(oklchColor)\<close> of \<open>ramp.ts\<close> throws for every colour.
\<close>

definition clampGamut :: "oklch \<Rightarrow> error + 'c option" where
  \<comment> \<open>The outcome of the call \<open>clampGamut(oklchColor)\<close>: \<open>Inl\<close> is the error thrown.\<close>
  "clampGamut modeArgument = Inl TypeError"

section \<open>ramp.ts\<close>

subsection \<open>normalizeHex\<close>

text \<open>
  \<open>normalizeHex\<close> calls itself on what \<open>formatHex\<close> returns, so with the library as a
  parameter it need not terminate: \<^const>\<open>None\<close> is "does not return", \<open>Some (Inl e)\<close>
  is a thrown error and \<open>Some (Inr s)\<close> the returned string.
\<close>

partial_function (option) normalizeHex ::
  "'c culori \<Rightarrow> string \<Rightarrow> (error + string) option" where
  "normalizeHex lib hex =
     (let h = toLowerCase (trim hex)
      in if matchHex3 h then
           Some (Inr (''#'' @ [h ! 1, h ! 1, h ! 2, h ! 2, h ! 3, h ! 3]))
         else if matchHex6 h then Some (Inr h)
         else (case parse lib h of
                 None \<Rightarrow> Some (Inl (Error ''Invalid hex''))
               | Some p \<Rightarrow>
                   (case formatHex lib p of
                      None \<Rightarrow> Some (Inl (Error ''Invalid hex''))
                    | Some formatted \<Rightarrow> normalizeHex lib formatted)))"

declare normalizeHex.simps [code]

definition isValidHex :: "string \<Rightarrow> bool" where
  \<comment> \<open>The patterns with \<open>[0-9a-fA-F]\<close>: a hex digit of either case.\<close>
  "isValidHex hex =
     (let h = trim hex;
          digit = (\<lambda>ch. isHexDigit ch \<or> ch \<in> set ''ABCDEF'')
      in (length h = 7 \<and> hd h = CHR ''#'' \<and> list_all digit (tl h))
       \<or> (length h = 4 \<and> hd h = CHR ''#'' \<and> list_all digit (tl h)))"

subsection \<open>Hue arithmetic and interpolation\<close>

definition wrapHue :: "real \<Rightarrow> real" where
  "wrapHue hue = (let x = jsRem hue 360 in if x < 0 then jsAdd x 360 else x)"

definition shortestHueDelta :: "real \<Rightarrow> real \<Rightarrow> real" where
  "shortestHueDelta a b =
     (let d = jsRem (jsSub b a) 360;
          d = (if d > 180 then jsSub d 360 else d);
          d = (if d < - 180 then jsAdd d 360 else d)
      in d)"

definition nullish :: "real option \<Rightarrow> real" where
  \<comment> \<open>\<open>v ?? 0\<close>\<close>
  "nullish v = (case v of None \<Rightarrow> 0 | Some x \<Rightarrow> x)"

definition lerpOklch :: "oklch \<Rightarrow> oklch \<Rightarrow> real \<Rightarrow> oklch" where
  "lerpOklch a b t =
     (let ah = wrapHue (nullish (oklch_h a));
          bh = wrapHue (nullish (oklch_h b));
          dh = shortestHueDelta ah bh;
          hue = wrapHue (jsAdd ah (jsMul dh t));
          lightness = jsAdd (nullish (oklch_l a))
                        (jsMul (jsSub (nullish (oklch_l b)) (nullish (oklch_l a))) t);
          chroma = jsAdd (nullish (oklch_c a))
                     (jsMul (jsSub (nullish (oklch_c b)) (nullish (oklch_c a))) t)
      in \<lparr>oklch_l = Some lightness, oklch_c = Some chroma, oklch_h = Some hue\<rparr>)"

definition sampleWhiteBaseBlack :: "'c culori \<Rightarrow> string \<Rightarrow> real \<Rightarrow> error + oklch" where
  \<comment> \<open>\<open>white\<close> and \<open>black\<close> carry a non-null assertion, which is erased at run time:
      reading \<open>a.h\<close> of an \<open>undefined\<close> endpoint in \<open>lerpOklch\<close> is a TypeError.\<close>
  "sampleWhiteBaseBlack lib baseHex t01 =
     (case toOklch lib (parse lib baseHex) of
        None \<Rightarrow> Inl (Error ''Invalid base hex'')
      | Some base \<Rightarrow>
          (let white = toOklch lib (parse lib ''#ffffff'');
               black = toOklch lib (parse lib ''#000000'')
           in if t01 \<le> 0.5 then
                (case white of
                   None \<Rightarrow> Inl TypeError
                 | Some w \<Rightarrow> Inr (lerpOklch w base (jsDiv t01 0.5)))
              else
                (case black of
                   None \<Rightarrow> Inl TypeError
                 | Some k \<Rightarrow> Inr (lerpOklch base k (jsDiv (jsSub t01 0.5) 0.5)))))"

definition sampleRefined :: "oklch \<Rightarrow> oklch \<Rightarrow> oklch \<Rightarrow> real \<Rightarrow> oklch" where
  "sampleRefined light base dark t01 =
     (if t01 \<le> 0.5 then lerpOklch light base (jsDiv t01 0.5)
      else lerpOklch base dark (jsDiv (jsSub t01 0.5) 0.5))"

definition toHexSafe :: "'c culori \<Rightarrow> oklch \<Rightarrow> (error + string) option" where
  "toHexSafe lib oklchColor =
     (case clampGamut oklchColor of
        Inl e \<Rightarrow> Some (Inl e)
      | Inr None \<Rightarrow> Some (Inl (Error ''Failed to clamp color to gamut''))
      | Inr (Some clamped) \<Rightarrow>
          (case toRgb lib clamped of
             None \<Rightarrow> Some (Inl (Error ''Failed to convert to RGB''))
           | Some rgb \<Rightarrow>
               (case formatHex lib rgb of
                  None \<Rightarrow> Some (Inl (Error ''Failed to format hex''))
                | Some hex \<Rightarrow> normalizeHex lib hex)))"

subsection \<open>generateRamp9\<close>

datatype RampStep = S100 | S200 | S300 | S400 | S500 | S600 | S700 | S800 | S900

datatype StopSet = Figma | Even

type_synonym PartialRamp = "RampStep \<rightharpoonup> string"

definition steps :: "RampStep list" where
  "steps = [S100, S200, S300, S400, S500, S600, S700, S800, S900]"

definition positions :: "StopSet \<Rightarrow> real list" where
  \<comment> \<open>A decimal literal is the double nearest to it.\<close>
  "positions stopSet =
     map roundDouble
       (if stopSet = Even
        then [0.0, 0.125, 0.25, 0.375, 0.5, 0.625, 0.75, 0.875, 1.0]
        else [0.0, 0.13, 0.25, 0.38, 0.5, 0.63, 0.75, 0.88, 1.0])"

text \<open>
  The \<open>for\<close> loop of \<open>generateRamp9\<close>: \<open>todo\<close> holds the pairs \<open>(steps[i], positions[i])\<close>
  still to visit and \<open>out\<close> is the object under construction. An error thrown by
  \<open>toHexSafe\<close> leaves the loop.
\<close>

fun rampLoop ::
  "'c culori \<Rightarrow> oklch \<Rightarrow> oklch \<Rightarrow> oklch \<Rightarrow> (RampStep \<times> real) list \<Rightarrow> PartialRamp
    \<Rightarrow> (error + PartialRamp) option" where
  "rampLoop lib light base dark [] out = Some (Inr out)"
| "rampLoop lib light base dark ((s, t) # todo) out =
     (case toHexSafe lib (sampleRefined light base dark t) of
        None \<Rightarrow> None
      | Some (Inl e) \<Rightarrow> Some (Inl e)
      | Some (Inr hex) \<Rightarrow> rampLoop lib light base dark todo (out(s \<mapsto> hex)))"

definition generateRamp9 ::
  "'c culori \<Rightarrow> string \<Rightarrow> StopSet \<Rightarrow> (error + PartialRamp) option" where
  \<comment> \<open>The result is the object \<open>out\<close> as it was built; \<open>out as Ramp\<close> is a cast that
      is erased at run time.\<close>
  "generateRamp9 lib baseHex stopSet =
     (let baseParsed = parse lib baseHex;
          base = (case baseParsed of None \<Rightarrow> None | Some p \<Rightarrow> toOklch lib (Some p))
      in case base of
           None \<Rightarrow> Some (Inl (Error ''Invalid hex color''))
         | Some base \<Rightarrow>
             (case sampleWhiteBaseBlack lib baseHex 0.25 of
                Inl e \<Rightarrow> Some (Inl e)
              | Inr lightEndpoint \<Rightarrow>
                  (case sampleWhiteBaseBlack lib baseHex 0.75 of
                     Inl e \<Rightarrow> Some (Inl e)
                   | Inr darkEndpoint \<Rightarrow>
                       (case rampLoop lib lightEndpoint base darkEndpoint
                               (zip steps (positions stopSet)) Map.empty of
                          None \<Rightarrow> None
                        | Some (Inl e) \<Rightarrow> Some (Inl e)
                        | Some (Inr out) \<Rightarrow>
                            (case normalizeHex lib baseHex of
                               None \<Rightarrow> None
                             | Some (Inl e) \<Rightarrow> Some (Inl e)
                             | Some (Inr hex) \<Rightarrow> Some (Inr (out(S500 \<mapsto> hex))))))))"

section \<open>tokens.ts\<close>

record PaletteColor =
  color_id :: string
  color_label :: string
  color_hex :: string

datatype ThemeName = Light | Dark

record ThemeMapping =
  surfacePrimary :: string
  surfaceInverse :: string
  textPrimary :: string
  textInverse :: string
  accentPrimary :: string
  accentInverse :: string

type_synonym Ramp = "RampStep \<Rightarrow> string"

text \<open>
  The ramp map is a plain object with the ramps as its own properties: a partial map from
  ids to ramps. \<open>buildTokens\<close> reads it by \<open>ramps[c.id]\<close>, which also finds what the object
  inherits from \<open>Object.prototype\<close>: for an id that is the name of a member of
  \<open>Object.prototype\<close> and has no ramp of its own, the value read is that member, a function
  or an object. It is not \<open>undefined\<close>, and none of its properties is a step, so each
  \<open>ramp[s]\<close> is \<open>undefined\<close>.
\<close>

type_synonym RampMap = "string \<rightharpoonup> Ramp"

definition objectPrototypeMembers :: "string list" where
  "objectPrototypeMembers =
     [''constructor'', ''__defineGetter__'', ''__defineSetter__'', ''hasOwnProperty'',
      ''__lookupGetter__'', ''__lookupSetter__'', ''isPrototypeOf'', ''propertyIsEnumerable'',
      ''toString'', ''valueOf'', ''__proto__'', ''toLocaleString'']"

definition rampsAt :: "RampMap \<Rightarrow> string \<Rightarrow> (RampStep \<Rightarrow> string option) option" where
  \<comment> \<open>\<open>ramps[id]\<close>: \<^const>\<open>None\<close> is \<open>undefined\<close>; otherwise the value read, given by what
      its properties \<open>100\<close>, ..., \<open>900\<close> read.\<close>
  "rampsAt ramps ident =
     (case ramps ident of
        Some ramp \<Rightarrow> Some (\<lambda>s. Some (ramp s))
      | None \<Rightarrow> if ident \<in> set objectPrototypeMembers then Some (\<lambda>s. None) else None)"

text \<open>
  An object of type \<open>Record<string, string>\<close> is an association list in insertion order:
  \<open>Object.keys\<close> and \<open>Object.entries\<close> list the string keys in the order of their first
  assignment, and assigning to a key that exists keeps its place. That is
  \<^const>\<open>AList.update\<close>. No key of \<open>buildTokens\<close> is an array index. The values of
  \<open>primitives\<close> are strings or \<open>undefined\<close> (\<^const>\<open>None\<close>).
\<close>

type_synonym obj = "(string \<times> string) list"

type_synonym primitiveObj = "(string \<times> string option) list"

definition assign :: "string \<Rightarrow> 'v \<Rightarrow> (string \<times> 'v) list \<Rightarrow> (string \<times> 'v) list" where
  \<comment> \<open>\<open>o[k] = v\<close>\<close>
  "assign k v ob = AList.update k v ob"

definition getProp :: "obj \<Rightarrow> string \<Rightarrow> string" where
  \<comment> \<open>\<open>o[k]\<close>, read where a string is expected; a missing key reads \<open>undefined\<close>, which a
      template literal prints as that word.\<close>
  "getProp ob k = (case map_of ob k of None \<Rightarrow> ''undefined'' | Some v \<Rightarrow> v)"

definition getPrimitive :: "primitiveObj \<Rightarrow> string \<Rightarrow> string option" where
  \<comment> \<open>\<open>primitives[k]\<close>\<close>
  "getPrimitive prims k = (case map_of prims k of None \<Rightarrow> None | Some v \<Rightarrow> v)"

definition templateText :: "string option \<Rightarrow> string" where
  \<comment> \<open>What a template literal prints for a value that is a string or \<open>undefined\<close>.\<close>
  "templateText v = (case v of None \<Rightarrow> ''undefined'' | Some text \<Rightarrow> text)"

record TokenJson =
  primitives :: primitiveObj
  themes :: "ThemeName \<Rightarrow> obj"
  components :: "ThemeName \<Rightarrow> obj"

record TokenBundle =
  css :: string
  json :: TokenJson

definition stepString :: "RampStep \<Rightarrow> string" where
  \<comment> \<open>The number of the step as a template literal prints it.\<close>
  "stepString s =
     (case s of
        S100 \<Rightarrow> ''100'' | S200 \<Rightarrow> ''200'' | S300 \<Rightarrow> ''300''
      | S400 \<Rightarrow> ''400'' | S500 \<Rightarrow> ''500'' | S600 \<Rightarrow> ''600''
      | S700 \<Rightarrow> ''700'' | S800 \<Rightarrow> ''800'' | S900 \<Rightarrow> ''900'')"

definition varNamePrimitive :: "string \<Rightarrow> RampStep \<Rightarrow> string" where
  "varNamePrimitive ident step = ''--c-'' @ ident @ ''-'' @ stepString step"

definition varLine :: "string \<Rightarrow> string \<Rightarrow> string" where
  "varLine name val = ''  '' @ name @ '': '' @ val @ '';''"

definition varRef :: "string \<Rightarrow> RampStep \<Rightarrow> string" where
  \<comment> \<open>The template literal \<open>var(${varNamePrimitive(id, step)})\<close>.\<close>
  "varRef ident step = ''var('' @ varNamePrimitive ident step @ '')''"

definition themeName :: "ThemeName \<Rightarrow> string" where
  "themeName theme = (case theme of Light \<Rightarrow> ''light'' | Dark \<Rightarrow> ''dark'')"

definition addRamp :: "RampMap \<Rightarrow> PaletteColor \<Rightarrow> primitiveObj \<Rightarrow> primitiveObj" where
  \<comment> \<open>One round of the first loop of \<open>buildTokens\<close>; \<open>continue\<close> when \<open>ramps[c.id]\<close> is
      \<open>undefined\<close>.\<close>
  "addRamp ramps c prims =
     (case rampsAt ramps (color_id c) of
        None \<Rightarrow> prims
      | Some ramp \<Rightarrow> fold (\<lambda>s. assign (varNamePrimitive (color_id c) s) (ramp s)) steps prims)"

definition buildPrimitives :: "PaletteColor list \<Rightarrow> RampMap \<Rightarrow> primitiveObj" where
  \<comment> \<open>The first loop of \<open>buildTokens\<close>, from the empty object.\<close>
  "buildPrimitives palette ramps = fold (addRamp ramps) palette []"

definition semanticTokens :: "ThemeName \<Rightarrow> ThemeMapping \<Rightarrow> obj" where
  \<comment> \<open>The assignments to \<open>themes[theme]\<close>, in the order of the source.\<close>
  "semanticTokens theme m =
     (let surfacePrimaryStep = (if theme = Light then S100 else S900);
          surfaceSecondaryStep = (if theme = Light then S200 else S800);
          textPrimaryStep = (if theme = Light then S900 else S100);
          textSecondaryStep = (if theme = Light then S700 else S200);
          textMutedStep = (if theme = Light then S600 else S400);
          textDisabledStep = (if theme = Light then S400 else S500);
          borderDefaultStep = (if theme = Light then S300 else S700);
          borderStrongStep = (if theme = Light then S400 else S600);
          borderSubtleStep = (if theme = Light then S200 else S800);
          accentDefaultStep = S500;
          accentHoverStep = S600;
          accentActiveStep = S700;
          th = [];
          th = assign ''--surface-primary'' (varRef (surfacePrimary m) surfacePrimaryStep) th;
          th = assign ''--surface-secondary'' (varRef (surfacePrimary m) surfaceSecondaryStep) th;
          th = assign ''--surface-inverse''
                 (varRef (surfaceInverse m) (if theme = Light then S900 else S100)) th;
          th = assign ''--text-primary'' (varRef (textPrimary m) textPrimaryStep) th;
          th = assign ''--text-secondary'' (varRef (textPrimary m) textSecondaryStep) th;
          th = assign ''--text-muted'' (varRef (textPrimary m) textMutedStep) th;
          th = assign ''--text-disabled'' (varRef (textPrimary m) textDisabledStep) th;
          th = assign ''--text-inverse''
                 (varRef (textInverse m) (if theme = Light then S100 else S900)) th;
          th = assign ''--border-default'' (varRef (textPrimary m) borderDefaultStep) th;
          th = assign ''--border-strong'' (varRef (textPrimary m) borderStrongStep) th;
          th = assign ''--border-subtle'' (varRef (textPrimary m) borderSubtleStep) th;
          th = assign ''--accent'' (varRef (accentPrimary m) accentDefaultStep) th;
          th = assign ''--accent-hover'' (varRef (accentPrimary m) accentHoverStep) th;
          th = assign ''--accent-active'' (varRef (accentPrimary m) accentActiveStep) th;
          th = assign ''--accent-inverse'' (varRef (accentInverse m) accentDefaultStep) th;
          th = assign ''--link'' (getProp th ''--accent'') th;
          th = assign ''--link-hover'' (getProp th ''--accent-hover'') th;
          th = assign ''--link-active'' (getProp th ''--accent-active'') th
      in th)"

definition componentTokens :: "obj \<Rightarrow> obj" where
  \<comment> \<open>The assignments to \<open>components[theme]\<close>; \<open>th\<close> is \<open>themes[theme]\<close>.\<close>
  "componentTokens th =
     (let co = [];
          co = assign ''--btn-primary-bg'' (getProp th ''--surface-inverse'') co;
          co = assign ''--btn-primary-text'' (getProp th ''--text-inverse'') co;
          co = assign ''--btn-primary-bg-hover'' (getProp th ''--accent-hover'') co;
          co = assign ''--btn-primary-bg-active'' (getProp th ''--accent-active'') co;
          co = assign ''--btn-primary-bg-disabled'' (getProp th ''--surface-secondary'') co;
          co = assign ''--btn-primary-text-disabled'' (getProp th ''--text-disabled'') co;
          co = assign ''--btn-secondary-bg'' ''transparent'' co;
          co = assign ''--btn-secondary-text'' (getProp th ''--text-primary'') co;
          co = assign ''--btn-secondary-border'' (getProp th ''--border-default'') co;
          co = assign ''--btn-secondary-bg-hover'' (getProp th ''--surface-secondary'') co;
          co = assign ''--btn-secondary-bg-active'' (getProp th ''--surface-secondary'') co;
          co = assign ''--btn-secondary-text-disabled'' (getProp th ''--text-disabled'') co;
          co = assign ''--btn-secondary-border-disabled'' (getProp th ''--border-subtle'') co;
          co = assign ''--input-bg'' (getProp th ''--surface-primary'') co;
          co = assign ''--input-text'' (getProp th ''--text-primary'') co;
          co = assign ''--input-placeholder'' (getProp th ''--text-muted'') co;
          co = assign ''--input-border'' (getProp th ''--border-default'') co;
          co = assign ''--input-border-focus'' (getProp th ''--accent'') co;
          co = assign ''--input-bg-disabled'' (getProp th ''--surface-secondary'') co;
          co = assign ''--input-text-disabled'' (getProp th ''--text-disabled'') co
      in co)"

text \<open>
  \<open>Object.keys(primitives).sort((a, b) => a.localeCompare(b))\<close>. The comparison is a
  parameter \<open>cmp\<close> of the model of \<open>buildTokens\<close>: a negative result puts \<open>a\<close> first. The
  sort is stable; it is written as an insertion sort, which gives the one sorted
  arrangement that every stable sort gives when the comparison is consistent.
\<close>

fun insertBy :: "(string \<Rightarrow> string \<Rightarrow> int) \<Rightarrow> string \<Rightarrow> string list \<Rightarrow> string list" where
  "insertBy cmp x [] = [x]"
| "insertBy cmp x (y # ys) = (if cmp x y < 0 then x # y # ys else y # insertBy cmp x ys)"

definition sortBy :: "(string \<Rightarrow> string \<Rightarrow> int) \<Rightarrow> string list \<Rightarrow> string list" where
  "sortBy cmp xs = foldl (\<lambda>acc x. insertBy cmp x acc) [] xs"

fun joinLines :: "string list \<Rightarrow> string" where
  \<comment> \<open>\<open>lines.join("\n")\<close>\<close>
  "joinLines [] = []"
| "joinLines [x] = x"
| "joinLines (x # y # ys) = x @ [CHR 0x0A] @ joinLines (y # ys)"

definition themeLines :: "ThemeName \<Rightarrow> obj \<Rightarrow> obj \<Rightarrow> string list" where
  \<comment> \<open>The pushes of one round of the last loop.\<close>
  "themeLines theme th co =
     [''[data-theme='' @ [CHR 0x22] @ themeName theme @ [CHR 0x22] @ ''] {'']
     @ [''  /* Semantic tokens */'']
     @ map (\<lambda>(k, v). varLine k v) th
     @ ['''']
     @ [''  /* Component tokens */'']
     @ map (\<lambda>(k, v). varLine k v) co
     @ [''}'']
     @ ['''']"

definition tokenLines ::
  "(string \<Rightarrow> string \<Rightarrow> int) \<Rightarrow> primitiveObj \<Rightarrow> (ThemeName \<Rightarrow> obj) \<Rightarrow> (ThemeName \<Rightarrow> obj)
    \<Rightarrow> string list" where
  \<comment> \<open>The array \<open>lines\<close> after the last push.\<close>
  "tokenLines cmp prims th co =
     (let primitiveKeys = sortBy cmp (map fst prims)
      in ['':root {'']
         @ [''  /* Primitive ramps */'']
         @ map (\<lambda>k. varLine k (templateText (getPrimitive prims k))) primitiveKeys
         @ [''}'']
         @ ['''']
         @ concat (map (\<lambda>theme. themeLines theme (th theme) (co theme)) [Light, Dark]))"

definition buildTokens ::
  "(string \<Rightarrow> string \<Rightarrow> int) \<Rightarrow> PaletteColor list \<Rightarrow> RampMap \<Rightarrow> (ThemeName \<Rightarrow> ThemeMapping)
    \<Rightarrow> TokenBundle" where
  "buildTokens cmp palette ramps mapping =
     (let prims = buildPrimitives palette ramps;
          th = (\<lambda>theme. semanticTokens theme (mapping theme));
          co = (\<lambda>theme. componentTokens (th theme))
      in \<lparr>css = joinLines (tokenLines cmp prims th co),
          json = \<lparr>primitives = prims, themes = th, components = co\<rparr>\<rparr>)"

definition slotIds :: "ThemeMapping \<Rightarrow> string set" where
  \<comment> \<open>The ids that the six slots of a theme mapping reference.\<close>
  "slotIds m = {surfacePrimary m, surfaceInverse m, textPrimary m, textInverse m,
                accentPrimary m, accentInverse m}"

section \<open>The comparison of the host\<close>

text \<open>
  \<open>localeCompare\<close> is the comparison of the host's collation. It is modelled for strings of
  printable ASCII characters, in the root collation that the hosts use for English:
  the strings are compared first by the alphabetic weights of their characters, where
  the order is
  \<^verbatim>\<open> _-,;:!?.'"()[]{}@*/\&#%`^+<=>|~$0123456789\<close> and then the letters \<open>a\<close> to \<open>z\<close> without
  regard to case; strings that are equal in this comparison are compared by case, a small
  letter before its capital. Other characters are outside this model: they are put after
  the letters, and strings that differ in nothing else are ordered by their code units.
\<close>

fun position :: "nat \<Rightarrow> nat list \<Rightarrow> nat" where
  "position n [] = 0"
| "position n (m # ms) = (if n = m then 0 else Suc (position n ms))"

definition punctuationOrder :: "nat list" where
  \<comment> \<open>The codes of the characters before the digits, in their order.\<close>
  "punctuationOrder =
     [32, 95, 45, 44, 59, 58, 33, 63, 46, 39, 34, 40, 41, 91, 93, 123, 125, 64, 42, 47, 92,
      38, 35, 37, 96, 94, 43, 60, 61, 62, 124, 126, 36]"

definition primaryWeight :: "char \<Rightarrow> nat" where
  "primaryWeight ch =
     (let n = (of_char ch :: nat)
      in if 97 \<le> n \<and> n \<le> 122 then 200 + (n - 97)
         else if 65 \<le> n \<and> n \<le> 90 then 200 + (n - 65)
         else if 48 \<le> n \<and> n \<le> 57 then 100 + (n - 48)
         else if n \<in> set punctuationOrder then position n punctuationOrder
         else 1000 + n)"

definition caseWeight :: "char \<Rightarrow> nat" where
  "caseWeight ch = (let n = (of_char ch :: nat) in if 65 \<le> n \<and> n \<le> 90 then 1 else 0)"

definition collationKey :: "string \<Rightarrow> nat list \<times> nat list \<times> nat list" where
  "collationKey s = (map primaryWeight s, map caseWeight s, map of_char s)"

definition localeCompare :: "string \<Rightarrow> string \<Rightarrow> int" where
  \<comment> \<open>The keys are compared in the lexicographic order of lists and of tuples.\<close>
  "localeCompare a b =
     (if collationKey a < collationKey b then - 1
      else if collationKey b < collationKey a then 1
      else 0)"

text \<open>
  The comparison of code units is the lexicographic order of the strings. It is not the
  comparison of the host.
\<close>

fun compareCodeUnits :: "string \<Rightarrow> string \<Rightarrow> int" where
  "compareCodeUnits [] [] = 0"
| "compareCodeUnits [] (y # ys) = - 1"
| "compareCodeUnits (x # xs) [] = 1"
| "compareCodeUnits (x # xs) (y # ys) =
     (if (of_char x :: nat) < of_char y then - 1
      else if (of_char y :: nat) < of_char x then 1
      else compareCodeUnits xs ys)"

section \<open>Instances for evaluation\<close>

text \<open>
  A small grey-scale instance of the colour library, on which the model of \<open>ramp.ts\<close> can
  be run: a colour object is a grey level \<open>0..255\<close>, its lightness is the level divided by
  255, and \<open>formatHex\<close> prints the level three times as two hex digits.
\<close>

definition hexByte :: "nat \<Rightarrow> string" where
  "hexByte n = [''0123456789abcdef'' ! ((n div 16) mod 16), ''0123456789abcdef'' ! (n mod 16)]"

definition greyCulori :: "nat culori" where
  "greyCulori =
     \<lparr>parse = (\<lambda>s. if s = ''#ffffff'' then Some 255
                   else if s = ''#000000'' then Some 0
                   else if s = ''navy'' then Some 128
                   else if s = ''#1c2e7a'' then Some 46
                   else None),
      toOklch = (\<lambda>p. case p of
                        None \<Rightarrow> None
                      | Some g \<Rightarrow>
                          Some \<lparr>oklch_l = Some (jsDiv (real g) 255), oklch_c = Some 0,
                                oklch_h = (if g = 0 \<or> g = 255 then None else Some 180)\<rparr>),
      toRgb = (\<lambda>g. Some g),
      formatHex = (\<lambda>g. Some (''#'' @ hexByte g @ hexByte g @ hexByte g))\<rparr>"

text \<open>
  A palette of three colours, of which \<open>lost\<close> has no ramp, and two theme mappings:
  one that references colours with a ramp only, and one whose \<open>surfacePrimary\<close> slot
  references the id \<open>ghost\<close>, which is not in the palette.
\<close>

definition demoPalette :: "PaletteColor list" where
  "demoPalette =
     [\<lparr>color_id = ''paper'', color_label = ''Paper'', color_hex = ''#f0f0f0''\<rparr>,
      \<lparr>color_id = ''lost'', color_label = ''Lost'', color_hex = ''#zzzzzz''\<rparr>,
      \<lparr>color_id = ''ink'', color_label = ''Ink'', color_hex = ''#1c2e7a''\<rparr>]"

definition demoRamps :: RampMap where
  "demoRamps =
     [''paper'' \<mapsto> (\<lambda>s. ''#f0f'' @ stepString s),
      ''ink'' \<mapsto> (\<lambda>s. ''#1c2'' @ stepString s)]"

definition demoMapping :: "ThemeName \<Rightarrow> ThemeMapping" where
  "demoMapping theme =
     \<lparr>surfacePrimary = ''paper'', surfaceInverse = ''ink'', textPrimary = ''ink'',
      textInverse = ''paper'', accentPrimary = ''ink'', accentInverse = ''paper''\<rparr>"

definition ghostMapping :: "ThemeName \<Rightarrow> ThemeMapping" where
  "ghostMapping theme = (demoMapping theme)\<lparr>surfacePrimary := ''ghost''\<rparr>"

text \<open>
  A palette whose ids differ in case, with a ramp for each colour, and the bundle that
  \<open>buildTokens\<close> returns for it; a palette with the one id \<open>constructor\<close>, for which the ramp
  map is empty.
\<close>

definition casePalette :: "PaletteColor list" where
  "casePalette =
     [\<lparr>color_id = ''Zed'', color_label = ''Zed'', color_hex = ''#0000aa''\<rparr>,
      \<lparr>color_id = ''apple'', color_label = ''Apple'', color_hex = ''#aa0000''\<rparr>]"

definition caseRamps :: RampMap where
  "caseRamps =
     [''Zed'' \<mapsto> (\<lambda>s. ''#00a'' @ stepString s),
      ''apple'' \<mapsto> (\<lambda>s. ''#a00'' @ stepString s)]"

definition caseMapping :: "ThemeName \<Rightarrow> ThemeMapping" where
  "caseMapping theme =
     \<lparr>surfacePrimary = ''Zed'', surfaceInverse = ''apple'', textPrimary = ''apple'',
      textInverse = ''Zed'', accentPrimary = ''apple'', accentInverse = ''Zed''\<rparr>"

definition caseBundle :: TokenBundle where
  "caseBundle = buildTokens localeCompare casePalette caseRamps caseMapping"

definition constructorPalette :: "PaletteColor list" where
  "constructorPalette =
     [\<lparr>color_id = ''constructor'', color_label = ''Constructor'', color_hex = ''#zzzzzz''\<rparr>]"

section \<open>Evaluation rules\<close>

lemmas string_eval = trim_def toLowerCase_def toLowerChar_def isWhiteSpace_def
  matchHex3_def matchHex6_def isHexDigit_def char_of_def bit_Suc_0_iff

lemmas name_eval = varRef_def varNamePrimitive_def varLine_def stepString_def

section \<open>Properties of normalizeHex\<close>

lemma isHexDigit_not_space: "isHexDigit ch \<Longrightarrow> \<not> isWhiteSpace ch"
  by (auto simp: isHexDigit_def isWhiteSpace_def)

lemma isHexDigit_lower: "isHexDigit ch \<Longrightarrow> toLowerChar ch = ch"
  by (auto simp: isHexDigit_def toLowerChar_def)

lemma hash_plain: "\<not> isWhiteSpace CHR ''#''" "toLowerChar CHR ''#'' = CHR ''#''"
  by (simp_all add: isWhiteSpace_def toLowerChar_def)

lemma trim_id:
  assumes "s \<noteq> []" "\<not> isWhiteSpace (hd s)" "\<not> isWhiteSpace (last s)"
  shows "trim s = s"
proof -
  have a: "dropWhile isWhiteSpace s = s" using assms by (cases s) auto
  have "rev s \<noteq> []" "\<not> isWhiteSpace (hd (rev s))" using assms by (simp_all add: hd_rev)
  then have b: "dropWhile isWhiteSpace (rev s) = rev s" by (cases "rev s") auto
  show ?thesis by (simp add: trim_def a b)
qed

lemma hex_chars_plain:
  assumes "s \<noteq> []" "hd s = CHR ''#''" "list_all isHexDigit (tl s)"
  shows "toLowerCase (trim s) = s"
proof -
  obtain a ys where s: "s = a # ys" using assms(1) by (cases s) auto
  with assms have "a = CHR ''#''" "list_all isHexDigit ys" by auto
  then have ch: "\<forall>ch \<in> set s. \<not> isWhiteSpace ch \<and> toLowerChar ch = ch"
    using s hash_plain isHexDigit_not_space isHexDigit_lower by (auto simp: list_all_iff)
  have "trim s = s" using assms(1) ch by (intro trim_id) auto
  moreover have "map toLowerChar s = s" using ch by (simp add: map_idI)
  ultimately show ?thesis by (simp add: toLowerCase_def)
qed

lemma normalizeHex_hex6:
  assumes "matchHex6 y"
  shows "normalizeHex lib y = Some (Inr y)"
proof -
  have no3: "\<not> matchHex3 y" using assms by (simp add: matchHex6_def matchHex3_def)
  have plain: "toLowerCase (trim y) = y"
    using assms by (intro hex_chars_plain) (auto simp: matchHex6_def)
  show ?thesis
    by (subst normalizeHex.simps) (simp add: plain no3 assms)
qed

lemma normalizeHex_hex3:
  assumes "isHexDigit a" "isHexDigit b" "isHexDigit c"
  shows "normalizeHex lib [CHR ''#'', a, b, c] = Some (Inr [CHR ''#'', a, a, b, b, c, c])"
proof -
  have m: "matchHex3 [CHR ''#'', a, b, c]" using assms by (simp add: matchHex3_def)
  have plain: "toLowerCase (trim [CHR ''#'', a, b, c]) = [CHR ''#'', a, b, c]"
    using assms by (intro hex_chars_plain) simp_all
  show ?thesis by (subst normalizeHex.simps) (simp add: plain m)
qed

lemma expand3_hex6:
  assumes "matchHex3 h"
  shows "matchHex6 (''#'' @ [h ! 1, h ! 1, h ! 2, h ! 2, h ! 3, h ! 3])"
proof -
  obtain a b c d where h: "h = [a, b, c, d]"
    using assms by (auto simp: matchHex3_def length_Suc_conv numeral_eq_Suc)
  show ?thesis using assms by (simp add: h matchHex3_def matchHex6_def)
qed

lemma normalizeHex_body:
  assumes "(let h = toLowerCase (trim x)
      in if matchHex3 h then
           Some (Inr (''#'' @ [h ! 1, h ! 1, h ! 2, h ! 2, h ! 3, h ! 3]))
         else if matchHex6 h then Some (Inr h)
         else (case parse lib h of
                 None \<Rightarrow> Some (Inl (Error ''Invalid hex''))
               | Some p \<Rightarrow>
                   (case formatHex lib p of
                      None \<Rightarrow> Some (Inl (Error ''Invalid hex''))
                    | Some formatted \<Rightarrow> f lib formatted))) = Some r"
  shows "(\<exists>y. r = Inr y \<and> matchHex6 y) \<or> r = Inl (Error ''Invalid hex'')
         \<or> (\<exists>formatted. f lib formatted = Some r)"
proof -
  let ?h = "toLowerCase (trim x)"
  show ?thesis
  proof (cases "matchHex3 ?h")
    case True
    with assms have "r = Inr (''#'' @ [?h ! 1, ?h ! 1, ?h ! 2, ?h ! 2, ?h ! 3, ?h ! 3])"
      by (simp add: Let_def)
    with expand3_hex6 [OF True] show ?thesis by simp
  next
    case no3: False
    show ?thesis
    proof (cases "matchHex6 ?h")
      case True
      with no3 assms have "r = Inr ?h" by (simp add: Let_def)
      with True show ?thesis by simp
    next
      case False
      with no3 assms have
        "(case parse lib ?h of
            None \<Rightarrow> Some (Inl (Error ''Invalid hex''))
          | Some p \<Rightarrow>
              (case formatHex lib p of
                 None \<Rightarrow> Some (Inl (Error ''Invalid hex''))
               | Some formatted \<Rightarrow> f lib formatted)) = Some r"
        by (simp add: Let_def)
      then show ?thesis by (auto split: option.splits)
    qed
  qed
qed

lemma normalizeHex_result:
  assumes "normalizeHex lib x = Some r"
  shows "\<forall>y. r = Inr y \<longrightarrow> matchHex6 y"
proof (rule normalizeHex.raw_induct
    [where P = "\<lambda>lib x r. \<forall>y. r = Inr y \<longrightarrow> matchHex6 y", OF _ assms])
  fix f :: "'a culori \<Rightarrow> string \<Rightarrow> (error + string) option"
  fix lib x r
  assume IH: "\<And>lib x r. f lib x = Some r \<Longrightarrow> \<forall>y. r = Inr y \<longrightarrow> matchHex6 y"
  assume "(let h = toLowerCase (trim x)
      in if matchHex3 h then
           Some (Inr (''#'' @ [h ! 1, h ! 1, h ! 2, h ! 2, h ! 3, h ! 3]))
         else if matchHex6 h then Some (Inr h)
         else (case parse lib h of
                 None \<Rightarrow> Some (Inl (Error ''Invalid hex''))
               | Some p \<Rightarrow>
                   (case formatHex lib p of
                      None \<Rightarrow> Some (Inl (Error ''Invalid hex''))
                    | Some formatted \<Rightarrow> f lib formatted))) = Some r"
  then have "(\<exists>y. r = Inr y \<and> matchHex6 y) \<or> r = Inl (Error ''Invalid hex'')
         \<or> (\<exists>formatted. f lib formatted = Some r)"
    by (rule normalizeHex_body [where f = f and lib = lib])
  then show "\<forall>y. r = Inr y \<longrightarrow> matchHex6 y"
    using IH by blast
qed

lemma normalizeHex_returns_hex6:
  "normalizeHex lib x = Some (Inr y) \<Longrightarrow> matchHex6 y"
  using normalizeHex_result by blast

text \<open>
  Claim C8. \<open>normalizeHex\<close> is idempotent on every input it accepts: when
  \<open>normalizeHex(x)\<close> returns \<open>y\<close>, \<open>normalizeHex(y)\<close> returns \<open>y\<close> again, and \<open>y\<close> matches
  \<open>#[0-9a-f]{6}\<close>. The shorthand \<open>#abc\<close>, for any three digits of \<open>[0-9a-f]\<close>, is
  normalized to \<open>#aabbcc\<close>. This holds for every colour library.
\<close>

theorem normalizeHex_idempotent:
  "(normalizeHex lib x = Some (Inr y) \<longrightarrow> normalizeHex lib y = Some (Inr y) \<and> matchHex6 y)
   \<and> (isHexDigit a \<and> isHexDigit b \<and> isHexDigit c \<longrightarrow>
        normalizeHex lib [CHR ''#'', a, b, c] = Some (Inr [CHR ''#'', a, a, b, b, c, c]))"
proof (intro conjI impI)
  assume r: "normalizeHex lib x = Some (Inr y)"
  then show "matchHex6 y" by (rule normalizeHex_returns_hex6)
  then show "normalizeHex lib y = Some (Inr y)" by (rule normalizeHex_hex6)
next
  assume "isHexDigit a \<and> isHexDigit b \<and> isHexDigit c"
  then show "normalizeHex lib [CHR ''#'', a, b, c] = Some (Inr [CHR ''#'', a, a, b, b, c, c])"
    by (simp add: normalizeHex_hex3)
qed

lemma grey_normalize_navy: "normalizeHex greyCulori '' Navy '' = Some (Inr ''#808080'')"
  by (simp add: normalizeHex.simps greyCulori_def hexByte_def string_eval)

theorem normalizeHex_idempotent_witness:
  "normalizeHex greyCulori '' Navy '' = Some (Inr ''#808080'')
   \<and> normalizeHex greyCulori ''#808080'' = Some (Inr ''#808080'')
   \<and> matchHex6 ''#808080''
   \<and> isHexDigit CHR ''a'' \<and> isHexDigit CHR ''b'' \<and> isHexDigit CHR ''c''
   \<and> normalizeHex greyCulori ''#abc'' = Some (Inr ''#aabbcc'')"
proof -
  have d: "isHexDigit CHR ''a'' \<and> isHexDigit CHR ''b'' \<and> isHexDigit CHR ''c''"
    by (simp add: isHexDigit_def)
  from normalizeHex_idempotent
         [of greyCulori "'' Navy ''" "''#808080''" "CHR ''a''" "CHR ''b''" "CHR ''c''"]
       grey_normalize_navy d
  show ?thesis by simp
qed

section \<open>Properties of generateRamp9\<close>

lemma toHexSafe_TypeError: "toHexSafe lib oklchColor = Some (Inl TypeError)"
  by (simp add: toHexSafe_def clampGamut_def)

lemma rampLoop_TypeError:
  assumes "todo \<noteq> []"
  shows "rampLoop lib light base dark todo out = Some (Inl TypeError)"
proof -
  from assms obtain s t rest where "todo = (s, t) # rest" by (cases todo) auto
  then show ?thesis by (simp add: toHexSafe_TypeError)
qed

lemma rampLoop_first_round:
  "rampLoop lib light base dark (zip steps (positions stopSet)) Map.empty = Some (Inl TypeError)"
  by (rule rampLoop_TypeError) (simp add: steps_def positions_def)

lemma sampleWhiteBaseBlack_cases:
  assumes "toOklch lib (parse lib baseHex) = Some base"
  shows "sampleWhiteBaseBlack lib baseHex t = Inl TypeError
       \<or> (\<exists>col. sampleWhiteBaseBlack lib baseHex t = Inr col)"
  using assms by (simp add: sampleWhiteBaseBlack_def Let_def split: option.splits)

lemma generateRamp9_TypeError:
  assumes "parse lib baseHex = Some p" and "toOklch lib (Some p) = Some base"
  shows "generateRamp9 lib baseHex stopSet = Some (Inl TypeError)"
proof -
  have b: "toOklch lib (parse lib baseHex) = Some base" using assms by simp
  show ?thesis
  proof (cases "sampleWhiteBaseBlack lib baseHex 0.25")
    case (Inl e)
    with sampleWhiteBaseBlack_cases [OF b, of "0.25"] have "e = TypeError" by auto
    with Inl show ?thesis by (simp add: generateRamp9_def assms)
  next
    case light: (Inr lightEndpoint)
    show ?thesis
    proof (cases "sampleWhiteBaseBlack lib baseHex 0.75")
      case (Inl e)
      with sampleWhiteBaseBlack_cases [OF b, of "0.75"] have "e = TypeError" by auto
      with Inl light show ?thesis by (simp add: generateRamp9_def assms)
    next
      case (Inr darkEndpoint)
      with light show ?thesis
        by (simp add: generateRamp9_def assms rampLoop_first_round)
    qed
  qed
qed

lemma generateRamp9_Inl: "\<exists>e. generateRamp9 lib baseHex stopSet = Some (Inl e)"
proof (cases "parse lib baseHex")
  case None
  then show ?thesis by (simp add: generateRamp9_def)
next
  case (Some p)
  show ?thesis
  proof (cases "toOklch lib (Some p)")
    case None
    with Some show ?thesis by (simp add: generateRamp9_def)
  next
    case base: (Some base)
    from generateRamp9_TypeError [OF Some base] show ?thesis by blast
  qed
qed

lemma grey_parse:
  "parse greyCulori ''#1c2e7a'' = Some 46"
  "toOklch greyCulori (Some 46)
     = Some \<lparr>oklch_l = Some (jsDiv 46 255), oklch_c = Some 0, oklch_h = Some 180\<rparr>"
  by (simp_all add: greyCulori_def)

text \<open>
  Claim C3 (not met by the code). \<open>generateRamp9\<close> does not return a ramp whose step 500
  is the normalized base: for every base hex string that parses and converts, and for
  both stop sets, it throws a TypeError, in the first round of its loop, before the
  assignment to step 500 is reached.
\<close>

theorem generateRamp9_throws_TypeError:
  assumes "parse lib baseHex = Some p" and "toOklch lib (Some p) = Some base"
  shows "generateRamp9 lib baseHex stopSet = Some (Inl TypeError)
       \<and> (\<forall>r. generateRamp9 lib baseHex stopSet \<noteq> Some (Inr r))"
  using generateRamp9_TypeError [OF assms, of stopSet] by simp

theorem generateRamp9_throws_TypeError_witness:
  "parse greyCulori ''#1c2e7a'' = Some 46
   \<and> toOklch greyCulori (Some 46)
       = Some \<lparr>oklch_l = Some (jsDiv 46 255), oklch_c = Some 0, oklch_h = Some 180\<rparr>
   \<and> generateRamp9 greyCulori ''#1c2e7a'' Figma = Some (Inl TypeError)"
  using generateRamp9_throws_TypeError [OF grey_parse, of Figma] grey_parse by simp

text \<open>
  Claim C4 (not met by the code). \<open>toHexSafe\<close> returns no hex string: it throws a TypeError
  for every colour, at the call of \<open>clampGamut\<close>. So \<open>generateRamp9\<close> throws an error for
  every input and returns no ramp with nine keys.
\<close>

theorem toHexSafe_throws_TypeError:
  "toHexSafe lib oklchColor = Some (Inl TypeError)
   \<and> (\<exists>e. generateRamp9 lib baseHex stopSet = Some (Inl e))"
  using toHexSafe_TypeError generateRamp9_Inl by blast

text \<open>
  Claim C10 (not met by the code). For a base hex string that parses and converts,
  \<open>generateRamp9\<close> returns a ramp neither for the stop set \<open>figma\<close> nor for the stop set
  \<open>even\<close>; both calls throw a TypeError, so there are no two ramps to agree.
\<close>

theorem generateRamp9_no_stop_set_returns:
  assumes "parse lib baseHex = Some p" and "toOklch lib (Some p) = Some base"
  shows "generateRamp9 lib baseHex Figma = Some (Inl TypeError)
       \<and> generateRamp9 lib baseHex Even = Some (Inl TypeError)"
  using generateRamp9_TypeError [OF assms] by simp

theorem generateRamp9_no_stop_set_returns_witness:
  "parse greyCulori ''#1c2e7a'' = Some 46
   \<and> generateRamp9 greyCulori ''#1c2e7a'' Figma = Some (Inl TypeError)
   \<and> generateRamp9 greyCulori ''#1c2e7a'' Even = Some (Inl TypeError)"
  using generateRamp9_no_stop_set_returns [OF grey_parse] grey_parse(1) by simp

section \<open>Properties of the hue arithmetic\<close>

subsection \<open>Rounding\<close>

lemma roundEven_le: "q \<le> of_int k \<Longrightarrow> roundEven q \<le> k"
proof -
  assume q: "q \<le> of_int k"
  have f: "\<lfloor>q\<rfloor> \<le> k" using q by (simp add: floor_le_iff)
  show ?thesis
  proof (cases "q = of_int \<lfloor>q\<rfloor>")
    case True
    then have "q - of_int \<lfloor>q\<rfloor> = 0" by simp
    then show ?thesis using f by (simp add: roundEven_def Let_def)
  next
    case False
    then have "q \<noteq> of_int k" using q by (metis floor_of_int)
    with q have "q < of_int k" by simp
    then have "\<lfloor>q\<rfloor> < k" by (simp add: floor_less_iff)
    then show ?thesis by (simp add: roundEven_def Let_def)
  qed
qed

lemma roundEven_ge: "of_int k \<le> q \<Longrightarrow> k \<le> roundEven q"
proof -
  assume "of_int k \<le> q"
  then have "k \<le> \<lfloor>q\<rfloor>" by (simp add: le_floor_iff)
  then show ?thesis by (simp add: roundEven_def Let_def)
qed

lemma binade_le:
  assumes "0 < x" "x < 2 ^ 53"
  shows "binade x \<le> 52"
proof (cases "1 \<le> x")
  case True
  have "\<lfloor>x\<rfloor> < 2 ^ 53" using assms(2) by (simp add: floor_less_iff)
  then have "bitlen \<lfloor>x\<rfloor> \<le> 53" by (simp add: bitlen_le_iff_power)
  with True show ?thesis by (simp add: binade_def)
next
  case False
  have "0 \<le> bitlen (\<lceil>1 / x\<rceil> - 1)" by (rule bitlen_nonneg)
  with False show ?thesis by (simp add: binade_def)
qed

lemma ulp_inverse_int:
  assumes "x \<noteq> 0" "\<bar>x\<bar> < 2 ^ 53"
  obtains m :: int where "0 < m" "ulp x = 1 / of_int m"
proof -
  define k where "k = max (binade \<bar>x\<bar>) (- 1022) - 52"
  have "binade \<bar>x\<bar> \<le> 52" using assms by (intro binade_le) auto
  then have k: "k \<le> 0" by (simp add: k_def)
  show ?thesis
  proof (cases "k = 0")
    case True
    then have "ulp x = 1 / of_int 1" by (simp add: ulp_def k_def [symmetric])
    then show ?thesis using that [of 1] by simp
  next
    case False
    with k have "ulp x = 1 / 2 ^ nat (- k)" by (simp add: ulp_def k_def [symmetric] Let_def)
    then have "ulp x = 1 / of_int (2 ^ nat (- k))" by simp
    moreover have "(0::int) < 2 ^ nat (- k)" by simp
    ultimately show ?thesis using that by blast
  qed
qed

text \<open>Rounding does not cross an integer, below the 53rd power of two.\<close>

lemma roundDouble_le_int:
  assumes "\<bar>x\<bar> < 2 ^ 53" "x \<le> of_int a"
  shows "roundDouble x \<le> of_int a"
proof (cases "x = 0")
  case True
  with assms show ?thesis by (simp add: roundDouble_def)
next
  case False
  from ulp_inverse_int [OF False assms(1)] obtain m :: int where
    m: "0 < m" "ulp x = 1 / of_int m" by blast
  have "x / ulp x = x * of_int m" using m by simp
  moreover have "x * of_int m \<le> of_int (a * m)" using assms(2) m(1) by (simp add: mult_right_mono)
  ultimately have "roundEven (x / ulp x) \<le> a * m" by (simp add: roundEven_le)
  then have "real_of_int (roundEven (x / ulp x)) \<le> of_int a * of_int m"
    by (metis of_int_le_iff of_int_mult)
  then have "real_of_int (roundEven (x / ulp x)) / of_int m \<le> of_int a"
    using m(1) by (simp add: divide_le_eq)
  then show ?thesis using False m by (simp add: roundDouble_def)
qed

lemma roundDouble_ge_int:
  assumes "\<bar>x\<bar> < 2 ^ 53" "of_int a \<le> x"
  shows "of_int a \<le> roundDouble x"
proof (cases "x = 0")
  case True
  with assms show ?thesis by (simp add: roundDouble_def)
next
  case False
  from ulp_inverse_int [OF False assms(1)] obtain m :: int where
    m: "0 < m" "ulp x = 1 / of_int m" by blast
  have "x / ulp x = x * of_int m" using m by simp
  moreover have "of_int (a * m) \<le> x * of_int m" using assms(2) m(1) by (simp add: mult_right_mono)
  ultimately have "a * m \<le> roundEven (x / ulp x)" by (simp add: roundEven_ge)
  then have "of_int a * of_int m \<le> real_of_int (roundEven (x / ulp x))"
    by (metis of_int_le_iff of_int_mult)
  then have "of_int a \<le> real_of_int (roundEven (x / ulp x)) / of_int m"
    using m(1) by (simp add: le_divide_eq)
  then show ?thesis using False m by (simp add: roundDouble_def)
qed

lemma roundDouble_between:
  assumes "of_int lo \<le> x" "x \<le> of_int hi" "\<bar>real_of_int lo\<bar> < 2 ^ 53" "\<bar>real_of_int hi\<bar> < 2 ^ 53"
  shows "of_int lo \<le> roundDouble x \<and> roundDouble x \<le> of_int hi"
proof -
  have "\<bar>x\<bar> < 2 ^ 53" using assms by linarith
  then show ?thesis using assms(1,2) roundDouble_le_int roundDouble_ge_int by blast
qed

lemma roundDouble_int:
  assumes "\<bar>real_of_int a\<bar> < 2 ^ 53"
  shows "roundDouble (of_int a) = of_int a"
  using roundDouble_between [of a "of_int a" a] assms by simp

subsection \<open>The remainder\<close>

lemma jsRem_360_nonneg:
  assumes "0 \<le> x"
  shows "0 \<le> jsRem x 360" "jsRem x 360 < 360"
proof -
  have q: "0 \<le> x / 360" using assms by simp
  have "of_int \<lfloor>x / 360\<rfloor> \<le> x / 360" "x / 360 < of_int \<lfloor>x / 360\<rfloor> + 1"
    by linarith+
  then show "0 \<le> jsRem x 360" "jsRem x 360 < 360"
    using q by (simp_all add: jsRem_def field_simps)
qed

lemma jsRem_360_neg:
  assumes "x < 0"
  shows "- 360 < jsRem x 360" "jsRem x 360 \<le> 0"
proof -
  define k :: real where "k = of_int \<lceil>x / 360\<rceil>"
  have q: "\<not> 0 \<le> x / 360" using assms by simp
  have r: "jsRem x 360 = x - 360 * k" using q by (simp add: jsRem_def k_def)
  have "x / 360 \<le> k" "k - 1 < x / 360"
    unfolding k_def by linarith+
  then have "x \<le> 360 * k" "360 * k - 360 < x" by (simp_all add: field_simps)
  then show "- 360 < jsRem x 360" "jsRem x 360 \<le> 0"
    unfolding r by linarith+
qed

lemma jsRem_360_bounds: "- 360 < jsRem x 360 \<and> jsRem x 360 < 360"
  using jsRem_360_nonneg [of x] jsRem_360_neg [of x] by (cases "0 \<le> x") auto

lemma jsRem_360_small:
  assumes "- 360 < x" "x < 360"
  shows "jsRem x 360 = x"
proof (cases "0 \<le> x")
  case True
  then have "\<lfloor>x / 360\<rfloor> = 0" using assms by (simp add: floor_eq_iff)
  with True show ?thesis by (simp add: jsRem_def)
next
  case False
  then have "\<lceil>x / 360\<rceil> = 0" using assms by (simp add: ceiling_eq_iff)
  with False show ?thesis by (simp add: jsRem_def)
qed

subsection \<open>Ranges\<close>

lemma roundDouble_range:
  assumes "real_of_int lo \<le> x" "x \<le> real_of_int hi" "\<bar>lo\<bar> \<le> 1000" "\<bar>hi\<bar> \<le> 1000"
  shows "real_of_int lo \<le> roundDouble x \<and> roundDouble x \<le> real_of_int hi"
proof -
  have "\<bar>real_of_int lo\<bar> \<le> 1000" "\<bar>real_of_int hi\<bar> \<le> 1000"
    using assms(3,4) by linarith+
  then have "\<bar>real_of_int lo\<bar> < 2 ^ 53" "\<bar>real_of_int hi\<bar> < 2 ^ 53" by simp_all
  with assms(1,2) show ?thesis by (rule roundDouble_between)
qed

lemma wrapHue_range: "0 \<le> wrapHue x \<and> wrapHue x \<le> 360"
proof (cases "jsRem x 360 < 0")
  case True
  have "real_of_int 0 \<le> jsRem x 360 + 360" "jsRem x 360 + 360 \<le> real_of_int 360"
    using jsRem_360_bounds [of x] True by simp_all
  from roundDouble_range [OF this] True show ?thesis
    by (simp add: wrapHue_def jsAdd_def Let_def)
next
  case False
  with jsRem_360_bounds [of x] show ?thesis by (simp add: wrapHue_def Let_def)
qed

lemma shortestHueDelta_range: "- 180 \<le> shortestHueDelta a b \<and> shortestHueDelta a b \<le> 180"
proof -
  define d where "d = jsRem (jsSub b a) 360"
  have d: "- 360 < d" "d < 360" using jsRem_360_bounds [of "jsSub b a"] by (simp_all add: d_def)
  show ?thesis
  proof (cases "d > 180")
    case True
    have "real_of_int (- 180) \<le> d - 360" "d - 360 \<le> real_of_int 0" using True d by simp_all
    from roundDouble_range [OF this] have "- 180 \<le> jsSub d 360 \<and> jsSub d 360 \<le> 0"
      by (simp add: jsSub_def)
    with True show ?thesis by (simp add: shortestHueDelta_def Let_def d_def [symmetric])
  next
    case le: False
    show ?thesis
    proof (cases "d < - 180")
      case True
      have "real_of_int 0 \<le> d + 360" "d + 360 \<le> real_of_int 180" using True d by simp_all
      from roundDouble_range [OF this] have "0 \<le> jsAdd d 360 \<and> jsAdd d 360 \<le> 180"
        by (simp add: jsAdd_def)
      with True le show ?thesis by (simp add: shortestHueDelta_def Let_def d_def [symmetric])
    next
      case False
      with le show ?thesis by (simp add: shortestHueDelta_def Let_def d_def [symmetric])
    qed
  qed
qed

lemma shortestHueDelta_half_turn:
  assumes "b - a = - 180"
  shows "shortestHueDelta a b = - 180"
proof -
  have "roundDouble (real_of_int (- 180)) = real_of_int (- 180)"
    by (rule roundDouble_int) simp
  then have "jsSub b a = - 180" using assms by (simp add: jsSub_def)
  moreover have "jsRem (- 180) 360 = - 180" by (rule jsRem_360_small) simp_all
  ultimately show ?thesis by (simp add: shortestHueDelta_def Let_def)
qed

lemma lerpOklch_hue:
  "\<exists>hue. oklch_h (lerpOklch p q t) = Some hue \<and> 0 \<le> hue \<and> hue \<le> 360"
  using wrapHue_range by (simp add: lerpOklch_def Let_def)

subsection \<open>Evaluation\<close>

lemmas number_eval =
  jsAdd_def jsSub_def jsMul_def jsDiv_def jsRem_def roundDouble_def roundEven_def ulp_def
  binade_def compute_bitlen ceiling_def Let_def

lemma wrapHue_half_turn: "wrapHue 180 = 180"
  by (simp add: wrapHue_def number_eval)

lemma wrapHue_zero: "wrapHue 0 = 0"
  by (simp add: wrapHue_def number_eval)

lemma shortestHueDelta_180_0: "shortestHueDelta 180 0 = - 180"
  by (simp add: shortestHueDelta_def number_eval)

lemma roundDouble_tiny: "roundDouble (1 / 10 ^ 20) = 6646139978924579 / 2 ^ 119"
  by (simp add: number_eval)

lemma wrapHue_tiny: "wrapHue (- (6646139978924579 / 2 ^ 119)) = 360"
  by (simp add: wrapHue_def number_eval)

lemma wrapHue_190: "wrapHue 190 = 190"
  by (simp add: wrapHue_def number_eval)

lemma wrapHue_10: "wrapHue 10 = 10"
  by (simp add: wrapHue_def number_eval)

lemma shortestHueDelta_190_10: "shortestHueDelta 190 10 = - 180"
  by (simp add: shortestHueDelta_def number_eval)

lemma lerpOklch_190_10:
  "oklch_h (lerpOklch \<lparr>oklch_l = Some 0.5, oklch_c = Some 0.125, oklch_h = Some 190\<rparr>
              \<lparr>oklch_l = Some 0.25, oklch_c = Some 0.25, oklch_h = Some 10\<rparr> 0.75) = Some 55"
  by (simp add: lerpOklch_def nullish_def wrapHue_190 wrapHue_10 shortestHueDelta_190_10)
     (simp add: wrapHue_def number_eval)

lemma lerpOklch_achromatic:
  "oklch_h (lerpOklch \<lparr>oklch_l = Some 1, oklch_c = Some 0, oklch_h = None\<rparr>
              \<lparr>oklch_l = Some 0.5, oklch_c = Some 0.125, oklch_h = Some (360 - 1 / 2 ^ 44)\<rparr> 0.5)
     = Some 360"
proof -
  have w: "wrapHue (360 - 1 / 2 ^ 44) = 360 - 1 / 2 ^ 44"
    by (simp add: wrapHue_def number_eval)
  have d: "shortestHueDelta 0 (360 - 1 / 2 ^ 44) = - (1 / 2 ^ 44)"
    by (simp add: shortestHueDelta_def number_eval)
  have h: "wrapHue (jsAdd 0 (jsMul (- (1 / 2 ^ 44)) 0.5)) = 360"
    by (simp add: wrapHue_def number_eval)
  show ?thesis
    by (simp only: lerpOklch_def Let_def nullish_def option.case oklch.select_convs
        wrapHue_zero w d h)
qed

lemma roundDouble_below_360: "roundDouble (360 - 1 / 2 ^ 44) = 360 - 1 / 2 ^ 44"
  by (simp add: number_eval)

text \<open>
  Claim C7, as amended. For every pair of wrapped hues, the signed hue delta of
  \<open>shortestHueDelta\<close> lies in the closed interval from -180 to 180, and it is -180 when the
  second hue is 180 below the first. A wrapped hue lies in the closed interval from 0 to
  360, and so does every interpolated hue of \<open>lerpOklch\<close>, for a fraction from 0 to 1.
\<close>

theorem hue_delta_and_wrap_range:
  "(- 180 \<le> shortestHueDelta (wrapHue x) (wrapHue y)
      \<and> shortestHueDelta (wrapHue x) (wrapHue y) \<le> 180)
   \<and> (wrapHue y - wrapHue x = - 180 \<longrightarrow> shortestHueDelta (wrapHue x) (wrapHue y) = - 180)
   \<and> (0 \<le> wrapHue x \<and> wrapHue x \<le> 360)
   \<and> (0 \<le> t \<and> t \<le> 1 \<longrightarrow>
        (\<exists>hue. oklch_h (lerpOklch p q t) = Some hue \<and> 0 \<le> hue \<and> hue \<le> 360))"
  using shortestHueDelta_range [of "wrapHue x" "wrapHue y"]
    shortestHueDelta_half_turn [of "wrapHue y" "wrapHue x"]
    wrapHue_range [of x] lerpOklch_hue [of p q t]
  by (intro conjI impI) simp_all

theorem hue_delta_and_wrap_range_witness:
  "wrapHue 190 = 190 \<and> wrapHue 10 = 10
   \<and> shortestHueDelta (wrapHue 190) (wrapHue 10) = - 180
   \<and> - 180 \<le> shortestHueDelta (wrapHue 190) (wrapHue 10)
   \<and> shortestHueDelta (wrapHue 190) (wrapHue 10) \<le> 180
   \<and> oklch_h (lerpOklch \<lparr>oklch_l = Some 0.5, oklch_c = Some 0.125, oklch_h = Some 190\<rparr>
                 \<lparr>oklch_l = Some 0.25, oklch_c = Some 0.25, oklch_h = Some 10\<rparr> 0.75) = Some 55"
proof -
  have h: "wrapHue 10 - wrapHue 190 = - 180" "(0::real) \<le> 0.75 \<and> (0.75::real) \<le> 1"
    by (simp_all add: wrapHue_190 wrapHue_10)
  from hue_delta_and_wrap_range [of 190 10 "0.75"
      "\<lparr>oklch_l = Some 0.5, oklch_c = Some 0.125, oklch_h = Some 190\<rparr>"
      "\<lparr>oklch_l = Some 0.25, oklch_c = Some 0.25, oklch_h = Some 10\<rparr>"]
    h wrapHue_190 wrapHue_10 lerpOklch_190_10
  show ?thesis by simp
qed

text \<open>
  The delta is not always in the half-open interval: between the wrapped hues 180 and 0
  it is -180. A wrapped hue is not always below 360: for the double nearest to 1e-20,
  negated, the remainder is the number itself and the sum with 360 rounds to 360; the
  same happens in \<open>lerpOklch\<close> half way between an achromatic colour (no hue, as for white)
  and a colour of the hue 359.99999999999994, the double just below 360.
\<close>

theorem hue_delta_half_open_counterexample:
  "shortestHueDelta (wrapHue 180) (wrapHue 0) = - 180
   \<and> \<not> (- 180 < shortestHueDelta (wrapHue 180) (wrapHue 0))
   \<and> wrapHue (- roundDouble (1 / 10 ^ 20)) = 360
   \<and> \<not> (wrapHue (- roundDouble (1 / 10 ^ 20)) < 360)
   \<and> roundDouble (360 - 1 / 2 ^ 44) = 360 - 1 / 2 ^ 44
   \<and> oklch_h (lerpOklch \<lparr>oklch_l = Some 1, oklch_c = Some 0, oklch_h = None\<rparr>
        \<lparr>oklch_l = Some 0.5, oklch_c = Some 0.125, oklch_h = Some (360 - 1 / 2 ^ 44)\<rparr> 0.5)
       = Some 360"
proof -
  have "wrapHue (- roundDouble (1 / 10 ^ 20)) = 360"
    by (simp only: roundDouble_tiny wrapHue_tiny)
  with roundDouble_below_360 lerpOklch_achromatic show ?thesis
    by (simp add: wrapHue_half_turn wrapHue_zero shortestHueDelta_180_0)
qed

section \<open>Properties of the sampling\<close>

lemma positions_Even: "positions Even = [0, 1 / 8, 1 / 4, 3 / 8, 1 / 2, 5 / 8, 3 / 4, 7 / 8, 1]"
  by (simp add: positions_def number_eval)

lemma positions_Figma:
  "positions Figma =
     [0, 1170935903116329 / 2 ^ 53, 1 / 4, 3422735716801577 / 2 ^ 53, 1 / 2,
      5674535530486825 / 2 ^ 53, 3 / 4, 7926335344172073 / 2 ^ 53, 1]"
  by (simp add: positions_def number_eval)

text \<open>
  The two stop sets have the positions of the steps 100, 300, 500, 700 and 900 in common.
\<close>

lemma positions_shared:
  "map (\<lambda>i. positions Figma ! i) [0, 2, 4, 6, 8] = [0, 1 / 4, 1 / 2, 3 / 4, 1]"
  "map (\<lambda>i. positions Even ! i) [0, 2, 4, 6, 8] = [0, 1 / 4, 1 / 2, 3 / 4, 1]"
  by (simp_all add: positions_Figma positions_Even)

lemma lerpOklch_half:
  "lerpOklch \<lparr>oklch_l = Some 1, oklch_c = Some 0, oklch_h = None\<rparr>
     \<lparr>oklch_l = Some 0.5, oklch_c = Some 0.125, oklch_h = Some 180\<rparr> 0.5
   = \<lparr>oklch_l = Some 0.75, oklch_c = Some 0.0625, oklch_h = Some 90\<rparr>"
  by (simp add: lerpOklch_def nullish_def wrapHue_def shortestHueDelta_def number_eval)

lemma sampleRefined_light:
  "sampleRefined \<lparr>oklch_l = Some 1, oklch_c = Some 0, oklch_h = None\<rparr>
     \<lparr>oklch_l = Some 0.5, oklch_c = Some 0.125, oklch_h = Some 180\<rparr>
     \<lparr>oklch_l = Some 0, oklch_c = Some 0, oklch_h = None\<rparr> 0.25
   = \<lparr>oklch_l = Some 0.75, oklch_c = Some 0.0625, oklch_h = Some 90\<rparr>"
  by (simp add: sampleRefined_def lerpOklch_def nullish_def wrapHue_def shortestHueDelta_def
      number_eval)

lemma sampleRefined_dark:
  "sampleRefined \<lparr>oklch_l = Some 1, oklch_c = Some 0, oklch_h = None\<rparr>
     \<lparr>oklch_l = Some 0.5, oklch_c = Some 0.125, oklch_h = Some 180\<rparr>
     \<lparr>oklch_l = Some 0, oklch_c = Some 0, oklch_h = None\<rparr> 0.75
   = \<lparr>oklch_l = Some 0.25, oklch_c = Some 0.0625, oklch_h = Some 90\<rparr>"
  by (simp add: sampleRefined_def lerpOklch_def nullish_def wrapHue_def shortestHueDelta_def
      number_eval)

lemma sampleWhiteBaseBlack_invalid:
  "sampleWhiteBaseBlack greyCulori ''nope'' 0.25 = Inl (Error ''Invalid base hex'')"
  by (simp add: sampleWhiteBaseBlack_def greyCulori_def)

lemma sampleWhiteBaseBlack_navy:
  "sampleWhiteBaseBlack greyCulori ''navy'' 0.25
     = Inr \<lparr>oklch_l = Some (845528753570049 / 2 ^ 50), oklch_c = Some 0, oklch_h = Some 90\<rparr>"
  "sampleWhiteBaseBlack greyCulori ''navy'' 0.75
     = Inr \<lparr>oklch_l = Some (282578800148737 / 2 ^ 50), oklch_c = Some 0, oklch_h = Some 90\<rparr>"
  by (simp_all add: sampleWhiteBaseBlack_def greyCulori_def lerpOklch_def nullish_def
      wrapHue_def shortestHueDelta_def number_eval)

section \<open>Properties of buildTokens\<close>

lemma json_primitives:
  "primitives (json (buildTokens cmp palette ramps mapping)) = buildPrimitives palette ramps"
  by (simp add: buildTokens_def Let_def)

lemma json_themes:
  "themes (json (buildTokens cmp palette ramps mapping)) theme = semanticTokens theme (mapping theme)"
  by (simp add: buildTokens_def Let_def)

lemma json_components:
  "components (json (buildTokens cmp palette ramps mapping)) theme
     = componentTokens (semanticTokens theme (mapping theme))"
  by (simp add: buildTokens_def Let_def)

subsection \<open>Primitive names\<close>

lemma length_stepString: "length (stepString s) = 3"
  by (cases s) (simp_all add: stepString_def)

lemma stepString_inj: "stepString s = stepString t \<Longrightarrow> s = t"
  by (cases s; cases t) (simp_all add: stepString_def)

lemma varNamePrimitive_inj:
  assumes "varNamePrimitive i s = varNamePrimitive j t"
  shows "i = j \<and> s = t"
proof -
  from assms have "i @ (''-'' @ stepString s) = j @ (''-'' @ stepString t)"
    by (simp add: varNamePrimitive_def)
  moreover have "length (''-'' @ stepString s) = length (''-'' @ stepString t)"
    by (simp add: length_stepString)
  ultimately have "i = j \<and> ''-'' @ stepString s = ''-'' @ stepString t"
    by (metis append_eq_append_conv)
  then show ?thesis by (auto dest: stepString_inj)
qed

subsection \<open>The primitive loop\<close>

lemma buildPrimitives_fold: "buildPrimitives palette ramps = fold (addRamp ramps) palette []"
  by (simp add: buildPrimitives_def)

lemma keys_assign: "fst ` set (assign k v ob) = insert k (fst ` set ob)"
  by (simp add: assign_def dom_update)

lemma distinct_assign: "distinct (map fst ob) \<Longrightarrow> distinct (map fst (assign k v ob))"
  by (simp add: assign_def distinct_update)

lemma keys_fold_assign:
  "fst ` set (fold (\<lambda>s. assign (name s) (val s)) ss ob) = fst ` set ob \<union> name ` set ss"
  by (induction ss arbitrary: ob) (auto simp: keys_assign)

lemma distinct_fold_assign:
  "distinct (map fst ob) \<Longrightarrow> distinct (map fst (fold (\<lambda>s. assign (name s) (val s)) ss ob))"
  by (induction ss arbitrary: ob) (auto simp: distinct_assign)

lemma keys_addRamp:
  "fst ` set (addRamp ramps c prims) =
     fst ` set prims \<union> (if rampsAt ramps (color_id c) = None then {}
                          else varNamePrimitive (color_id c) ` set steps)"
  by (auto simp: addRamp_def keys_fold_assign split: option.splits)

lemma distinct_addRamp:
  "distinct (map fst prims) \<Longrightarrow> distinct (map fst (addRamp ramps c prims))"
  by (auto simp: addRamp_def distinct_fold_assign split: option.splits)

lemma keys_fold_addRamp:
  "fst ` set (fold (addRamp ramps) palette prims) =
     fst ` set prims \<union>
     {varNamePrimitive (color_id c) s | c s. c \<in> set palette \<and> rampsAt ramps (color_id c) \<noteq> None
        \<and> s \<in> set steps}"
proof (induction palette arbitrary: prims)
  case Nil
  then show ?case by simp
next
  case (Cons c palette)
  show ?case
    unfolding fold_simps Cons.IH keys_addRamp by auto
qed

lemma distinct_fold_addRamp:
  "distinct (map fst prims) \<Longrightarrow> distinct (map fst (fold (addRamp ramps) palette prims))"
  by (induction palette arbitrary: prims) (auto simp: distinct_addRamp)

lemma keys_buildPrimitives:
  "fst ` set (buildPrimitives palette ramps) =
     {varNamePrimitive (color_id c) s | c s. c \<in> set palette \<and> rampsAt ramps (color_id c) \<noteq> None
        \<and> s \<in> set steps}"
  by (simp add: buildPrimitives_fold keys_fold_addRamp)

lemma distinct_buildPrimitives: "distinct (map fst (buildPrimitives palette ramps))"
  by (simp add: buildPrimitives_fold distinct_fold_addRamp)

lemma no_ramp_no_primitive:
  assumes "rampsAt ramps ident = None"
  shows "varNamePrimitive ident s \<notin> fst ` set (buildPrimitives palette ramps)"
proof
  assume "varNamePrimitive ident s \<in> fst ` set (buildPrimitives palette ramps)"
  then have "\<exists>(c :: PaletteColor) t. varNamePrimitive ident s = varNamePrimitive (color_id c) t
      \<and> rampsAt ramps (color_id c) \<noteq> None"
    unfolding keys_buildPrimitives by blast
  then obtain c :: PaletteColor and t where
    "varNamePrimitive ident s = varNamePrimitive (color_id c) t"
    "rampsAt ramps (color_id c) \<noteq> None"
    by blast
  with varNamePrimitive_inj [of ident s "color_id c" t] assms show False by simp
qed

subsection \<open>Sorting\<close>

lemma set_insertBy: "set (insertBy cmp x ys) = insert x (set ys)"
  by (induction ys) auto

lemma distinct_insertBy: "distinct ys \<Longrightarrow> x \<notin> set ys \<Longrightarrow> distinct (insertBy cmp x ys)"
  by (induction ys) (auto simp: set_insertBy)

lemma sorted_insertBy:
  assumes asym: "\<And>a b. cmp a b < 0 \<Longrightarrow> \<not> cmp b a < 0"
    and trans: "\<And>a b c. cmp a b < 0 \<Longrightarrow> cmp b c < 0 \<Longrightarrow> cmp a c < 0"
    and "sorted_wrt (\<lambda>a b. \<not> cmp b a < 0) ys"
  shows "sorted_wrt (\<lambda>a b. \<not> cmp b a < 0) (insertBy cmp x ys)"
  using assms(3)
proof (induction ys)
  case Nil
  then show ?case by simp
next
  case (Cons y ys)
  show ?case
  proof (cases "cmp x y < 0")
    case True
    have "\<not> cmp z x < 0" if "z \<in> set ys" for z
    proof
      assume "cmp z x < 0"
      from trans [OF this True] Cons.prems that show False by auto
    qed
    with True asym Cons.prems show ?thesis by auto
  next
    case False
    with Cons show ?thesis by (auto simp: set_insertBy)
  qed
qed

lemma foldl_insertBy:
  assumes asym: "\<And>a b. cmp a b < 0 \<Longrightarrow> \<not> cmp b a < 0"
    and trans: "\<And>a b c. cmp a b < 0 \<Longrightarrow> cmp b c < 0 \<Longrightarrow> cmp a c < 0"
  shows "sorted_wrt (\<lambda>a b. \<not> cmp b a < 0) acc \<Longrightarrow>
         sorted_wrt (\<lambda>a b. \<not> cmp b a < 0) (foldl (\<lambda>acc x. insertBy cmp x acc) acc xs)"
  by (induction xs arbitrary: acc) (simp_all add: sorted_insertBy [OF asym trans])

lemma set_foldl_insertBy:
  "set (foldl (\<lambda>acc x. insertBy cmp x acc) acc xs) = set acc \<union> set xs"
  by (induction xs arbitrary: acc) (auto simp: set_insertBy)

lemma distinct_foldl_insertBy:
  "distinct acc \<Longrightarrow> distinct xs \<Longrightarrow> set acc \<inter> set xs = {} \<Longrightarrow>
   distinct (foldl (\<lambda>acc x. insertBy cmp x acc) acc xs)"
proof (induction xs arbitrary: acc)
  case Nil
  then show ?case by simp
next
  case (Cons x xs)
  from Cons.prems have "distinct (insertBy cmp x acc)" "distinct xs"
    "set (insertBy cmp x acc) \<inter> set xs = {}"
    by (auto simp: distinct_insertBy set_insertBy)
  then show ?case by (simp add: Cons.IH)
qed

lemma set_sortBy: "set (sortBy cmp xs) = set xs"
  by (simp add: sortBy_def set_foldl_insertBy)

lemma distinct_sortBy: "distinct xs \<Longrightarrow> distinct (sortBy cmp xs)"
  by (simp add: sortBy_def distinct_foldl_insertBy)

lemma sorted_sortBy:
  assumes "\<And>a b. cmp a b < 0 \<Longrightarrow> \<not> cmp b a < 0"
    and "\<And>a b c. cmp a b < 0 \<Longrightarrow> cmp b c < 0 \<Longrightarrow> cmp a c < 0"
  shows "sorted_wrt (\<lambda>a b. \<not> cmp b a < 0) (sortBy cmp xs)"
  unfolding sortBy_def by (rule foldl_insertBy [OF assms]) simp_all

subsection \<open>The semantic and component tokens\<close>

lemma semanticTokens_entries:
  "semanticTokens theme m =
     [(''--surface-primary'', varRef (surfacePrimary m) (if theme = Light then S100 else S900)),
      (''--surface-secondary'', varRef (surfacePrimary m) (if theme = Light then S200 else S800)),
      (''--surface-inverse'', varRef (surfaceInverse m) (if theme = Light then S900 else S100)),
      (''--text-primary'', varRef (textPrimary m) (if theme = Light then S900 else S100)),
      (''--text-secondary'', varRef (textPrimary m) (if theme = Light then S700 else S200)),
      (''--text-muted'', varRef (textPrimary m) (if theme = Light then S600 else S400)),
      (''--text-disabled'', varRef (textPrimary m) (if theme = Light then S400 else S500)),
      (''--text-inverse'', varRef (textInverse m) (if theme = Light then S100 else S900)),
      (''--border-default'', varRef (textPrimary m) (if theme = Light then S300 else S700)),
      (''--border-strong'', varRef (textPrimary m) (if theme = Light then S400 else S600)),
      (''--border-subtle'', varRef (textPrimary m) (if theme = Light then S200 else S800)),
      (''--accent'', varRef (accentPrimary m) S500),
      (''--accent-hover'', varRef (accentPrimary m) S600),
      (''--accent-active'', varRef (accentPrimary m) S700),
      (''--accent-inverse'', varRef (accentInverse m) S500),
      (''--link'', varRef (accentPrimary m) S500),
      (''--link-hover'', varRef (accentPrimary m) S600),
      (''--link-active'', varRef (accentPrimary m) S700)]"
  by (simp add: semanticTokens_def assign_def getProp_def Let_def)

lemma componentTokens_entries:
  "componentTokens th =
     [(''--btn-primary-bg'', getProp th ''--surface-inverse''),
      (''--btn-primary-text'', getProp th ''--text-inverse''),
      (''--btn-primary-bg-hover'', getProp th ''--accent-hover''),
      (''--btn-primary-bg-active'', getProp th ''--accent-active''),
      (''--btn-primary-bg-disabled'', getProp th ''--surface-secondary''),
      (''--btn-primary-text-disabled'', getProp th ''--text-disabled''),
      (''--btn-secondary-bg'', ''transparent''),
      (''--btn-secondary-text'', getProp th ''--text-primary''),
      (''--btn-secondary-border'', getProp th ''--border-default''),
      (''--btn-secondary-bg-hover'', getProp th ''--surface-secondary''),
      (''--btn-secondary-bg-active'', getProp th ''--surface-secondary''),
      (''--btn-secondary-text-disabled'', getProp th ''--text-disabled''),
      (''--btn-secondary-border-disabled'', getProp th ''--border-subtle''),
      (''--input-bg'', getProp th ''--surface-primary''),
      (''--input-text'', getProp th ''--text-primary''),
      (''--input-placeholder'', getProp th ''--text-muted''),
      (''--input-border'', getProp th ''--border-default''),
      (''--input-border-focus'', getProp th ''--accent''),
      (''--input-bg-disabled'', getProp th ''--surface-secondary''),
      (''--input-text-disabled'', getProp th ''--text-disabled'')]"
  by (simp add: componentTokens_def assign_def Let_def)

lemma componentTokens_semantic:
  "componentTokens (semanticTokens theme m) =
     [(''--btn-primary-bg'', varRef (surfaceInverse m) (if theme = Light then S900 else S100)),
      (''--btn-primary-text'', varRef (textInverse m) (if theme = Light then S100 else S900)),
      (''--btn-primary-bg-hover'', varRef (accentPrimary m) S600),
      (''--btn-primary-bg-active'', varRef (accentPrimary m) S700),
      (''--btn-primary-bg-disabled'',
         varRef (surfacePrimary m) (if theme = Light then S200 else S800)),
      (''--btn-primary-text-disabled'',
         varRef (textPrimary m) (if theme = Light then S400 else S500)),
      (''--btn-secondary-bg'', ''transparent''),
      (''--btn-secondary-text'', varRef (textPrimary m) (if theme = Light then S900 else S100)),
      (''--btn-secondary-border'', varRef (textPrimary m) (if theme = Light then S300 else S700)),
      (''--btn-secondary-bg-hover'',
         varRef (surfacePrimary m) (if theme = Light then S200 else S800)),
      (''--btn-secondary-bg-active'',
         varRef (surfacePrimary m) (if theme = Light then S200 else S800)),
      (''--btn-secondary-text-disabled'',
         varRef (textPrimary m) (if theme = Light then S400 else S500)),
      (''--btn-secondary-border-disabled'',
         varRef (textPrimary m) (if theme = Light then S200 else S800)),
      (''--input-bg'', varRef (surfacePrimary m) (if theme = Light then S100 else S900)),
      (''--input-text'', varRef (textPrimary m) (if theme = Light then S900 else S100)),
      (''--input-placeholder'', varRef (textPrimary m) (if theme = Light then S600 else S400)),
      (''--input-border'', varRef (textPrimary m) (if theme = Light then S300 else S700)),
      (''--input-border-focus'', varRef (accentPrimary m) S500),
      (''--input-bg-disabled'', varRef (surfacePrimary m) (if theme = Light then S200 else S800)),
      (''--input-text-disabled'', varRef (textPrimary m) (if theme = Light then S400 else S500))]"
  unfolding componentTokens_entries semanticTokens_entries by (simp add: getProp_def)

lemma semantic_values:
  assumes "v \<in> snd ` set (semanticTokens theme m)"
  shows "\<exists>ident s. ident \<in> slotIds m \<and> v = varRef ident s"
  using assms unfolding semanticTokens_entries slotIds_def by auto

lemma component_values:
  assumes "v \<in> snd ` set (componentTokens (semanticTokens theme m))"
  shows "v = ''transparent'' \<or> (\<exists>ident s. ident \<in> slotIds m \<and> v = varRef ident s)"
  using assms unfolding componentTokens_semantic slotIds_def by auto

lemma css_tokenLines:
  "css (buildTokens cmp palette ramps mapping) =
     joinLines (tokenLines cmp (buildPrimitives palette ramps)
        (\<lambda>theme. semanticTokens theme (mapping theme))
        (\<lambda>theme. componentTokens (semanticTokens theme (mapping theme))))"
  by (simp add: buildTokens_def Let_def)

lemma semantic_line:
  assumes "(k, v) \<in> set (th theme)"
  shows "varLine k v \<in> set (tokenLines cmp prims th co)"
proof -
  from assms have "varLine k v \<in> set (themeLines theme (th theme) (co theme))"
    by (force simp: themeLines_def)
  then show ?thesis by (cases theme) (simp_all add: tokenLines_def Let_def)
qed

lemma component_line:
  assumes "(k, v) \<in> set (co theme)"
  shows "varLine k v \<in> set (tokenLines cmp prims th co)"
proof -
  from assms have "varLine k v \<in> set (themeLines theme (th theme) (co theme))"
    by (force simp: themeLines_def)
  then show ?thesis by (cases theme) (simp_all add: tokenLines_def Let_def)
qed

lemma varRef_not_name: "varRef ident s \<noteq> varNamePrimitive ident' s'"
  by (simp add: varRef_def varNamePrimitive_def)

lemma varRef_not_hex: "\<not> matchHex6 (varRef ident s)"
  by (simp add: varRef_def matchHex6_def)

lemma strict_sorted:
  assumes "\<And>a b. a \<noteq> b \<Longrightarrow> cmp a b < 0 \<or> cmp b a < 0"
  shows "sorted_wrt (\<lambda>a b. \<not> cmp b a < 0) ys \<Longrightarrow> distinct ys
         \<Longrightarrow> sorted_wrt (\<lambda>a b. cmp a b < (0::int)) ys"
proof (induction ys)
  case Nil
  then show ?case by simp
next
  case (Cons y ys)
  have "cmp y z < 0" if "z \<in> set ys" for z
  proof -
    from that Cons.prems have "y \<noteq> z" "\<not> cmp z y < 0" by auto
    with assms [of y z] show ?thesis by blast
  qed
  with Cons show ?case by simp
qed

subsection \<open>The values of the primitives\<close>

lemma steps_all: "s \<in> set steps"
  by (cases s) (simp_all add: steps_def)

lemma map_of_assign: "map_of (assign k v ob) = (map_of ob)(k \<mapsto> v)"
  by (simp add: assign_def update_conv')

lemma map_of_fold_assign:
  assumes "inj name"
  shows "map_of (fold (\<lambda>s. assign (name s) (val s)) ss ob) (name s)
           = (if s \<in> set ss then Some (val s) else map_of ob (name s))"
proof (induction ss arbitrary: ob)
  case Nil
  then show ?case by simp
next
  case (Cons t ss)
  have "name s = name t \<longleftrightarrow> s = t" using assms by (auto dest: injD)
  then show ?case by (auto simp: Cons.IH map_of_assign)
qed

lemma map_of_fold_assign_other:
  "k \<notin> name ` set ss \<Longrightarrow> map_of (fold (\<lambda>s. assign (name s) (val s)) ss ob) k = map_of ob k"
  by (induction ss arbitrary: ob) (auto simp: map_of_assign)

lemma inj_varNamePrimitive: "inj (varNamePrimitive i)"
  by (rule injI) (simp add: varNamePrimitive_inj)

lemma map_of_addRamp:
  "map_of (addRamp ramps c prims) (varNamePrimitive i s)
     = (if color_id c = i then
          (case rampsAt ramps i of
             None \<Rightarrow> map_of prims (varNamePrimitive i s)
           | Some ramp \<Rightarrow> Some (ramp s))
        else map_of prims (varNamePrimitive i s))"
proof (cases "color_id c = i")
  case True
  show ?thesis
    using map_of_fold_assign [OF inj_varNamePrimitive, of i _ steps prims s] steps_all [of s]
    by (simp add: addRamp_def True split: option.splits)
next
  case False
  have "varNamePrimitive i s \<notin> varNamePrimitive (color_id c) ` set steps"
    using False varNamePrimitive_inj [of i s "color_id c"] by auto
  then show ?thesis
    using False by (simp add: addRamp_def map_of_fold_assign_other split: option.splits)
qed

lemma map_of_fold_addRamp:
  "map_of (fold (addRamp ramps) palette prims) (varNamePrimitive i s)
     = (if i \<in> color_id ` set palette then
          (case rampsAt ramps i of
             None \<Rightarrow> map_of prims (varNamePrimitive i s)
           | Some ramp \<Rightarrow> Some (ramp s))
        else map_of prims (varNamePrimitive i s))"
proof (induction palette arbitrary: prims)
  case Nil
  then show ?case by simp
next
  case (Cons c palette)
  show ?case
    by (auto simp: Cons.IH map_of_addRamp split: option.splits)
qed

lemma map_of_buildPrimitives:
  "map_of (buildPrimitives palette ramps) (varNamePrimitive i s)
     = (if i \<in> color_id ` set palette then map_option (\<lambda>ramp. ramp s) (rampsAt ramps i)
        else None)"
  by (simp add: buildPrimitives_fold map_of_fold_addRamp split: option.splits)

lemma getPrimitive_key:
  assumes "k \<in> fst ` set prims"
  shows "map_of prims k = Some (getPrimitive prims k)"
proof -
  from assms obtain v where "map_of prims k = Some v"
    by (metis map_of_eq_None_iff not_Some_eq)
  then show ?thesis by (simp add: getPrimitive_def)
qed

lemma primitive_line:
  assumes "k \<in> fst ` set prims"
  shows "varLine k (templateText (getPrimitive prims k)) \<in> set (tokenLines cmp prims th co)"
  using assms by (simp add: tokenLines_def Let_def set_sortBy)

subsection \<open>The comparison of the host\<close>

lemma localeCompare_less: "localeCompare a b < 0 \<longleftrightarrow> collationKey a < collationKey b"
  by (simp add: localeCompare_def)

lemma collationKey_inj: "collationKey a = collationKey b \<Longrightarrow> a = b"
proof -
  assume "collationKey a = collationKey b"
  then have "map (of_char :: char \<Rightarrow> nat) a = map of_char b" by (simp add: collationKey_def)
  moreover have "inj (of_char :: char \<Rightarrow> nat)" by (rule injI) simp
  ultimately show "a = b" by (simp add: inj_map_eq_map)
qed

lemma localeCompare_asym: "localeCompare a b < 0 \<Longrightarrow> \<not> localeCompare b a < 0"
  by (simp add: localeCompare_less)

lemma localeCompare_trans:
  "localeCompare a b < 0 \<Longrightarrow> localeCompare b c < 0 \<Longrightarrow> localeCompare a c < 0"
  unfolding localeCompare_less by (rule less_trans)

lemma localeCompare_total: "a \<noteq> b \<Longrightarrow> localeCompare a b < 0 \<or> localeCompare b a < 0"
proof -
  assume "a \<noteq> b"
  then have "collationKey a \<noteq> collationKey b" using collationKey_inj by blast
  then have "collationKey a < collationKey b \<or> collationKey b < collationKey a"
    by (rule linorder_neqE) simp_all
  then show ?thesis by (simp add: localeCompare_less)
qed

subsection \<open>The lines\<close>

lemma tokenLines_layout:
  "tokenLines cmp prims th co =
     ['':root {'', ''  /* Primitive ramps */'']
     @ map (\<lambda>k. ''  '' @ k @ '': '' @ templateText (getPrimitive prims k) @ '';'')
         (sortBy cmp (map fst prims))
     @ [''}'', '''']
     @ [''[data-theme=\"light\"] {'', ''  /* Semantic tokens */'']
     @ map (\<lambda>(k, v). ''  '' @ k @ '': '' @ v @ '';'') (th Light)
     @ ['''', ''  /* Component tokens */'']
     @ map (\<lambda>(k, v). ''  '' @ k @ '': '' @ v @ '';'') (co Light)
     @ [''}'', '''']
     @ [''[data-theme=\"dark\"] {'', ''  /* Semantic tokens */'']
     @ map (\<lambda>(k, v). ''  '' @ k @ '': '' @ v @ '';'') (th Dark)
     @ ['''', ''  /* Component tokens */'']
     @ map (\<lambda>(k, v). ''  '' @ k @ '': '' @ v @ '';'') (co Dark)
     @ [''}'', '''']"
  by (simp add: tokenLines_def themeLines_def themeName_def varLine_def Let_def)

lemma semantic_keys:
  "map fst (semanticTokens theme m) =
     [''--surface-primary'', ''--surface-secondary'', ''--surface-inverse'', ''--text-primary'',
      ''--text-secondary'', ''--text-muted'', ''--text-disabled'', ''--text-inverse'',
      ''--border-default'', ''--border-strong'', ''--border-subtle'', ''--accent'',
      ''--accent-hover'', ''--accent-active'', ''--accent-inverse'', ''--link'',
      ''--link-hover'', ''--link-active'']"
  unfolding semanticTokens_entries by simp

lemma component_keys:
  "map fst (componentTokens th) =
     [''--btn-primary-bg'', ''--btn-primary-text'', ''--btn-primary-bg-hover'',
      ''--btn-primary-bg-active'', ''--btn-primary-bg-disabled'',
      ''--btn-primary-text-disabled'', ''--btn-secondary-bg'', ''--btn-secondary-text'',
      ''--btn-secondary-border'', ''--btn-secondary-bg-hover'', ''--btn-secondary-bg-active'',
      ''--btn-secondary-text-disabled'', ''--btn-secondary-border-disabled'', ''--input-bg'',
      ''--input-text'', ''--input-placeholder'', ''--input-border'', ''--input-border-focus'',
      ''--input-bg-disabled'', ''--input-text-disabled'']"
  unfolding componentTokens_entries by simp

lemma demo_primitive_keys:
  "map fst (buildPrimitives demoPalette demoRamps) =
     [''--c-paper-100'', ''--c-paper-200'', ''--c-paper-300'', ''--c-paper-400'',
      ''--c-paper-500'', ''--c-paper-600'', ''--c-paper-700'', ''--c-paper-800'',
      ''--c-paper-900'', ''--c-ink-100'', ''--c-ink-200'', ''--c-ink-300'', ''--c-ink-400'',
      ''--c-ink-500'', ''--c-ink-600'', ''--c-ink-700'', ''--c-ink-800'', ''--c-ink-900'']"
  by (simp add: buildPrimitives_def addRamp_def rampsAt_def objectPrototypeMembers_def
      demoPalette_def demoRamps_def steps_def assign_def varNamePrimitive_def stepString_def)

text \<open>
  Claim C1, as amended. For every palette, ramp map and theme mapping, the values of
  \<open>json.themes[theme]\<close> and \<open>json.components[theme]\<close> are the values of the CSS
  declarations, with the \<open>var()\<close> wrapping: every value that references a primitive is
  the string \<open>var(--c-<id>-<step>)\<close> for the id of a slot of the theme's mapping, which is
  neither a bare primitive name nor a resolved colour, and the CSS holds the declaration
  of the key with this same value. The only other value is the literal \<open>transparent\<close>.
\<close>

theorem buildTokens_json_values:
  "let b = buildTokens cmp palette ramps mapping;
       ls = tokenLines cmp (primitives (json b)) (themes (json b)) (components (json b))
   in css b = joinLines ls
    \<and> (\<forall>(k, v) \<in> set (themes (json b) theme).
          (\<exists>ident s. ident \<in> slotIds (mapping theme)
              \<and> v = ''var('' @ varNamePrimitive ident s @ '')'')
          \<and> (\<forall>ident s. v \<noteq> varNamePrimitive ident s) \<and> \<not> matchHex6 v
          \<and> varLine k v \<in> set ls)
    \<and> (\<forall>(k, v) \<in> set (components (json b) theme).
          (v = ''transparent''
           \<or> (\<exists>ident s. ident \<in> slotIds (mapping theme)
                 \<and> v = ''var('' @ varNamePrimitive ident s @ '')''))
          \<and> (\<forall>ident s. v \<noteq> varNamePrimitive ident s) \<and> \<not> matchHex6 v
          \<and> varLine k v \<in> set ls)"
proof -
  let ?th = "\<lambda>theme. semanticTokens theme (mapping theme)"
  let ?co = "\<lambda>theme. componentTokens (?th theme)"
  let ?ls = "tokenLines cmp (buildPrimitives palette ramps) ?th ?co"
  have sem: "(\<exists>ident s. ident \<in> slotIds (mapping theme)
              \<and> v = ''var('' @ varNamePrimitive ident s @ '')'')
          \<and> (\<forall>ident s. v \<noteq> varNamePrimitive ident s) \<and> \<not> matchHex6 v
          \<and> varLine k v \<in> set ?ls"
    if "(k, v) \<in> set (?th theme)" for k v
  proof -
    from that have "v \<in> snd ` set (semanticTokens theme (mapping theme))" by force
    from semantic_values [OF this] obtain ident s where
      v: "ident \<in> slotIds (mapping theme)" "v = varRef ident s" by blast
    from semantic_line [of k v ?th theme] that have "varLine k v \<in> set ?ls" by simp
    with v varRef_not_name varRef_not_hex show ?thesis by (auto simp: varRef_def)
  qed
  have comp: "(v = ''transparent''
           \<or> (\<exists>ident s. ident \<in> slotIds (mapping theme)
                 \<and> v = ''var('' @ varNamePrimitive ident s @ '')''))
          \<and> (\<forall>ident s. v \<noteq> varNamePrimitive ident s) \<and> \<not> matchHex6 v
          \<and> varLine k v \<in> set ?ls"
    if "(k, v) \<in> set (?co theme)" for k v
  proof -
    from that have "v \<in> snd ` set (componentTokens (semanticTokens theme (mapping theme)))"
      by force
    from component_values [OF this] consider "v = ''transparent''"
      | ident s where "ident \<in> slotIds (mapping theme)" "v = varRef ident s" by blast
    moreover from component_line [of k v ?co theme] that have "varLine k v \<in> set ?ls"
      by simp
    ultimately show ?thesis
    proof cases
      case 1
      then show ?thesis
        using \<open>varLine k v \<in> set ?ls\<close>
        by (simp add: varNamePrimitive_def matchHex6_def)
    next
      case 2
      then show ?thesis
        using \<open>varLine k v \<in> set ?ls\<close> varRef_not_name varRef_not_hex
        by (auto simp: varRef_def)
    qed
  qed
  show ?thesis
    unfolding Let_def json_primitives json_themes json_components css_tokenLines
    using sem comp by blast
qed

theorem buildTokens_json_values_witness:
  "(''--text-primary'', ''var(--c-ink-900)'')
     \<in> set (themes (json (buildTokens localeCompare demoPalette demoRamps demoMapping)) Light)
   \<and> (\<exists>ident s. ident \<in> slotIds (demoMapping Light)
         \<and> ''var(--c-ink-900)'' = ''var('' @ varNamePrimitive ident s @ '')'')
   \<and> ''  --text-primary: var(--c-ink-900);''
     \<in> set (tokenLines localeCompare
          (primitives (json (buildTokens localeCompare demoPalette demoRamps demoMapping)))
          (themes (json (buildTokens localeCompare demoPalette demoRamps demoMapping)))
          (components (json (buildTokens localeCompare demoPalette demoRamps demoMapping))))
   \<and> (''--btn-secondary-bg'', ''transparent'')
     \<in> set (components (json (buildTokens localeCompare demoPalette demoRamps demoMapping)) Light)
   \<and> ''  --btn-secondary-bg: transparent;''
     \<in> set (tokenLines localeCompare
          (primitives (json (buildTokens localeCompare demoPalette demoRamps demoMapping)))
          (themes (json (buildTokens localeCompare demoPalette demoRamps demoMapping)))
          (components (json (buildTokens localeCompare demoPalette demoRamps demoMapping))))"
proof -
  let ?b = "buildTokens localeCompare demoPalette demoRamps demoMapping"
  note t = buildTokens_json_values
    [of localeCompare demoPalette demoRamps demoMapping Light, unfolded Let_def]
  have m1: "(''--text-primary'', ''var(--c-ink-900)'') \<in> set (themes (json ?b) Light)"
    by (simp add: json_themes semanticTokens_entries demoMapping_def name_eval)
  have m2: "(''--btn-secondary-bg'', ''transparent'') \<in> set (components (json ?b) Light)"
    by (simp add: json_components componentTokens_semantic)
  have l1: "varLine ''--text-primary'' ''var(--c-ink-900)'' = ''  --text-primary: var(--c-ink-900);''"
    and l2: "varLine ''--btn-secondary-bg'' ''transparent'' = ''  --btn-secondary-bg: transparent;''"
    by (simp_all add: varLine_def)
  note sem = t [THEN conjunct2, THEN conjunct1, THEN bspec, OF m1, unfolded prod.case l1]
  note comp = t [THEN conjunct2, THEN conjunct2, THEN bspec, OF m2, unfolded prod.case l2]
  from sem have a: "\<exists>ident s. ident \<in> slotIds (demoMapping Light)
         \<and> ''var(--c-ink-900)'' = ''var('' @ varNamePrimitive ident s @ '')''"
    by (rule conjunct1)
  note b = sem [THEN conjunct2, THEN conjunct2, THEN conjunct2]
  note c = comp [THEN conjunct2, THEN conjunct2, THEN conjunct2]
  from m1 a b m2 c show ?thesis by (intro conjI)
qed

text \<open>
  The values of the JSON object are wrapped: with the text role on the colour \<open>ink\<close>,
  \<open>json.themes.light["--text-primary"]\<close> is \<open>var(--c-ink-900)\<close>, not \<open>--c-ink-900\<close>.
\<close>

theorem buildTokens_json_unwrapped_counterexample:
  "map_of (themes (json (buildTokens localeCompare demoPalette demoRamps demoMapping)) Light)
      ''--text-primary'' = Some ''var(--c-ink-900)''
   \<and> map_of (themes (json (buildTokens localeCompare demoPalette demoRamps demoMapping)) Light)
      ''--text-primary'' \<noteq> Some ''--c-ink-900''
   \<and> map_of (components (json (buildTokens localeCompare demoPalette demoRamps demoMapping)) Dark)
      ''--input-bg'' = Some ''var(--c-paper-900)''"
proof -
  have "map_of (semanticTokens Light (demoMapping Light)) ''--text-primary''
      = Some ''var(--c-ink-900)''"
    by (simp add: semanticTokens_entries demoMapping_def name_eval)
  moreover have "map_of (componentTokens (semanticTokens Dark (demoMapping Dark))) ''--input-bg''
      = Some ''var(--c-paper-900)''"
    by (simp add: componentTokens_semantic demoMapping_def name_eval)
  ultimately show ?thesis
    unfolding json_themes json_components by simp
qed

lemma slot_is_referenced:
  assumes "ident \<in> slotIds m"
  shows "\<exists>k s. (k, varRef ident s) \<in> set (semanticTokens theme m)"
proof -
  from assms consider "ident = surfacePrimary m" | "ident = surfaceInverse m"
    | "ident = textPrimary m" | "ident = textInverse m" | "ident = accentPrimary m"
    | "ident = accentInverse m"
    by (auto simp: slotIds_def)
  then show ?thesis
  proof cases
    case 1
    have "(''--surface-primary'', varRef ident (if theme = Light then S100 else S900))
        \<in> set (semanticTokens theme m)"
      unfolding semanticTokens_entries 1 by simp
    then show ?thesis by blast
  next
    case 2
    have "(''--surface-inverse'', varRef ident (if theme = Light then S900 else S100))
        \<in> set (semanticTokens theme m)"
      unfolding semanticTokens_entries 2 by simp
    then show ?thesis by blast
  next
    case 3
    have "(''--text-primary'', varRef ident (if theme = Light then S900 else S100))
        \<in> set (semanticTokens theme m)"
      unfolding semanticTokens_entries 3 by simp
    then show ?thesis by blast
  next
    case 4
    have "(''--text-inverse'', varRef ident (if theme = Light then S100 else S900))
        \<in> set (semanticTokens theme m)"
      unfolding semanticTokens_entries 4 by simp
    then show ?thesis by blast
  next
    case 5
    have "(''--accent'', varRef ident S500) \<in> set (semanticTokens theme m)"
      unfolding semanticTokens_entries 5 by simp
    then show ?thesis by blast
  next
    case 6
    have "(''--accent-inverse'', varRef ident S500) \<in> set (semanticTokens theme m)"
      unfolding semanticTokens_entries 6 by simp
    then show ?thesis by blast
  qed
qed

text \<open>
  Claim C2, as amended. \<open>buildTokens\<close> does not validate the mapping and has no error
  result: for every input in which a mapping slot of a theme references an id for which
  the lookup \<open>ramps[id]\<close> is \<open>undefined\<close>, it returns a bundle in which a semantic token
  of that theme has the value \<open>var(--c-<id>-<step>)\<close>, the CSS holds the declaration with
  this value, and no primitive of that id, for any step, is among the keys of
  \<open>json.primitives\<close>.
\<close>

theorem buildTokens_no_validation:
  assumes "ident \<in> slotIds (mapping theme)" and "rampsAt ramps ident = None"
  shows "let b = buildTokens cmp palette ramps mapping;
             ls = tokenLines cmp (primitives (json b)) (themes (json b)) (components (json b))
         in css b = joinLines ls
          \<and> (\<exists>k s. (k, ''var('' @ varNamePrimitive ident s @ '')'') \<in> set (themes (json b) theme)
                \<and> varLine k (''var('' @ varNamePrimitive ident s @ '')'') \<in> set ls)
          \<and> (\<forall>s. varNamePrimitive ident s \<notin> fst ` set (primitives (json b)))"
proof -
  let ?th = "\<lambda>theme. semanticTokens theme (mapping theme)"
  let ?co = "\<lambda>theme. componentTokens (?th theme)"
  let ?ls = "tokenLines cmp (buildPrimitives palette ramps) ?th ?co"
  from slot_is_referenced [OF assms(1), of theme] obtain k s where
    ks: "(k, varRef ident s) \<in> set (?th theme)" by blast
  from semantic_line [of k "varRef ident s" ?th theme] ks
  have "varLine k (varRef ident s) \<in> set ?ls" by simp
  with ks have "\<exists>k s. (k, ''var('' @ varNamePrimitive ident s @ '')'') \<in> set (?th theme)
      \<and> varLine k (''var('' @ varNamePrimitive ident s @ '')'') \<in> set ?ls"
    unfolding varRef_def by blast
  moreover have "\<forall>s. varNamePrimitive ident s \<notin> fst ` set (buildPrimitives palette ramps)"
    using assms(2) by (simp add: no_ramp_no_primitive)
  ultimately show ?thesis
    unfolding Let_def json_primitives json_themes json_components css_tokenLines by blast
qed

lemma ghost_slot:
  "''ghost'' \<in> slotIds (ghostMapping Light)" "rampsAt demoRamps ''ghost'' = None"
  by (simp_all add: slotIds_def ghostMapping_def demoMapping_def demoRamps_def rampsAt_def
      objectPrototypeMembers_def)

theorem buildTokens_no_validation_witness:
  "''ghost'' \<in> slotIds (ghostMapping Light) \<and> rampsAt demoRamps ''ghost'' = None
   \<and> css (buildTokens localeCompare demoPalette demoRamps ghostMapping)
      = joinLines (tokenLines localeCompare
          (primitives (json (buildTokens localeCompare demoPalette demoRamps ghostMapping)))
          (themes (json (buildTokens localeCompare demoPalette demoRamps ghostMapping)))
          (components (json (buildTokens localeCompare demoPalette demoRamps ghostMapping))))
   \<and> (\<forall>s. varNamePrimitive ''ghost'' s
         \<notin> fst ` set (primitives (json (buildTokens localeCompare demoPalette demoRamps
                                       ghostMapping))))"
proof -
  note t = buildTokens_no_validation
    [of "''ghost''" ghostMapping Light demoRamps localeCompare demoPalette,
     OF ghost_slot, unfolded Let_def]
  from ghost_slot t [THEN conjunct1] t [THEN conjunct2, THEN conjunct2]
  show ?thesis by (intro conjI)
qed

text \<open>
  \<open>buildTokens\<close> returns a bundle with a reference to a primitive that is not declared:
  the slot \<open>surfacePrimary\<close> of the light theme references \<open>ghost\<close>, which has no ramp.
\<close>

theorem buildTokens_missing_reference_counterexample:
  "surfacePrimary (ghostMapping Light) = ''ghost'' \<and> demoRamps ''ghost'' = None
   \<and> map_of (themes (json (buildTokens localeCompare demoPalette demoRamps ghostMapping)) Light)
        ''--surface-primary'' = Some ''var(--c-ghost-100)''
   \<and> ''  --surface-primary: var(--c-ghost-100);''
     \<in> set (tokenLines localeCompare
          (primitives (json (buildTokens localeCompare demoPalette demoRamps ghostMapping)))
          (themes (json (buildTokens localeCompare demoPalette demoRamps ghostMapping)))
          (components (json (buildTokens localeCompare demoPalette demoRamps ghostMapping))))
   \<and> css (buildTokens localeCompare demoPalette demoRamps ghostMapping)
      = joinLines (tokenLines localeCompare
          (primitives (json (buildTokens localeCompare demoPalette demoRamps ghostMapping)))
          (themes (json (buildTokens localeCompare demoPalette demoRamps ghostMapping)))
          (components (json (buildTokens localeCompare demoPalette demoRamps ghostMapping))))
   \<and> ''--c-ghost-100''
     \<notin> set (map fst (primitives (json (buildTokens localeCompare demoPalette demoRamps
                                        ghostMapping))))"
proof -
  let ?th = "\<lambda>theme. semanticTokens theme (ghostMapping theme)"
  let ?co = "\<lambda>theme. componentTokens (?th theme)"
  have e: "(''--surface-primary'', ''var(--c-ghost-100)'') \<in> set (?th Light)"
    by (simp add: semanticTokens_entries ghostMapping_def demoMapping_def name_eval)
  have v: "map_of (?th Light) ''--surface-primary'' = Some ''var(--c-ghost-100)''"
    by (simp add: semanticTokens_entries ghostMapping_def demoMapping_def name_eval)
  have "varLine ''--surface-primary'' ''var(--c-ghost-100)''
      \<in> set (tokenLines localeCompare (buildPrimitives demoPalette demoRamps) ?th ?co)"
    using semantic_line [of _ _ ?th Light, OF e] .
  then have l: "''  --surface-primary: var(--c-ghost-100);''
      \<in> set (tokenLines localeCompare (buildPrimitives demoPalette demoRamps) ?th ?co)"
    by (simp add: varLine_def)
  have k: "''--c-ghost-100'' \<notin> set (map fst (buildPrimitives demoPalette demoRamps))"
    unfolding demo_primitive_keys by simp
  have m: "surfacePrimary (ghostMapping Light) = ''ghost''" "demoRamps ''ghost'' = None"
    by (simp_all add: ghostMapping_def demoMapping_def demoRamps_def)
  show ?thesis
    unfolding json_primitives json_themes json_components css_tokenLines
    using v l k m by blast
qed

lemma constructor_primitives:
  "buildPrimitives constructorPalette Map.empty =
     [(''--c-constructor-100'', None), (''--c-constructor-200'', None),
      (''--c-constructor-300'', None), (''--c-constructor-400'', None),
      (''--c-constructor-500'', None), (''--c-constructor-600'', None),
      (''--c-constructor-700'', None), (''--c-constructor-800'', None),
      (''--c-constructor-900'', None)]"
  by (simp add: buildPrimitives_def addRamp_def rampsAt_def objectPrototypeMembers_def
      constructorPalette_def steps_def assign_def varNamePrimitive_def stepString_def)

text \<open>
  Claim C9 does not hold of the code. A palette entry whose id has no ramp in the ramp map
  is not skipped when the id is the name of a member of \<open>Object.prototype\<close>, such as
  \<open>constructor\<close>: \<open>ramps[c.id]\<close> reads the inherited member, the test \<open>!ramp\<close> fails, and
  for each of the nine steps \<open>buildTokens\<close> emits a primitive of that id whose value is
  \<open>undefined\<close>; the CSS declares it with the text \<open>undefined\<close>.
\<close>

theorem buildTokens_inherited_member_not_skipped:
  assumes "c \<in> set palette" and "ramps (color_id c) = None"
    and "color_id c \<in> set objectPrototypeMembers"
  shows "let b = buildTokens cmp palette ramps mapping;
             ls = tokenLines cmp (primitives (json b)) (themes (json b)) (components (json b))
         in css b = joinLines ls
          \<and> (\<forall>s. map_of (primitives (json b)) (varNamePrimitive (color_id c) s) = Some None
                \<and> ''  '' @ varNamePrimitive (color_id c) s @ '': undefined;'' \<in> set ls)"
proof -
  let ?prims = "buildPrimitives palette ramps"
  let ?th = "\<lambda>theme. semanticTokens theme (mapping theme)"
  let ?co = "\<lambda>theme. componentTokens (?th theme)"
  have r: "rampsAt ramps (color_id c) = Some (\<lambda>s. None)"
    using assms(2,3) by (simp add: rampsAt_def)
  have v: "map_of ?prims (varNamePrimitive (color_id c) s) = Some None" for s
    using assms(1) by (simp add: map_of_buildPrimitives r)
  have l: "''  '' @ varNamePrimitive (color_id c) s @ '': undefined;''
      \<in> set (tokenLines cmp ?prims ?th ?co)" for s
  proof -
    have "varNamePrimitive (color_id c) s \<in> fst ` set ?prims"
      using v [of s] by (metis domI dom_map_of_conv_image_fst)
    from primitive_line [OF this, of cmp ?th ?co] v [of s] show ?thesis
      by (simp add: getPrimitive_def templateText_def varLine_def)
  qed
  show ?thesis
    unfolding Let_def json_primitives json_themes json_components css_tokenLines
    using v l by (intro conjI allI refl)
qed

theorem buildTokens_inherited_member_not_skipped_witness:
  "primitives (json (buildTokens localeCompare constructorPalette Map.empty demoMapping))
     = [(''--c-constructor-100'', None), (''--c-constructor-200'', None),
        (''--c-constructor-300'', None), (''--c-constructor-400'', None),
        (''--c-constructor-500'', None), (''--c-constructor-600'', None),
        (''--c-constructor-700'', None), (''--c-constructor-800'', None),
        (''--c-constructor-900'', None)]
   \<and> ''  --c-constructor-100: undefined;''
     \<in> set (tokenLines localeCompare
          (primitives (json (buildTokens localeCompare constructorPalette Map.empty demoMapping)))
          (themes (json (buildTokens localeCompare constructorPalette Map.empty demoMapping)))
          (components (json (buildTokens localeCompare constructorPalette Map.empty
             demoMapping))))
   \<and> css (buildTokens localeCompare constructorPalette Map.empty demoMapping)
     = joinLines (tokenLines localeCompare
          (primitives (json (buildTokens localeCompare constructorPalette Map.empty demoMapping)))
          (themes (json (buildTokens localeCompare constructorPalette Map.empty demoMapping)))
          (components (json (buildTokens localeCompare constructorPalette Map.empty
             demoMapping))))"
proof -
  let ?c = "\<lparr>color_id = ''constructor'', color_label = ''Constructor'',
      color_hex = ''#zzzzzz''\<rparr>"
  have h: "?c \<in> set constructorPalette" "Map.empty (color_id ?c) = None"
    "color_id ?c \<in> set objectPrototypeMembers"
    by (simp_all add: constructorPalette_def objectPrototypeMembers_def)
  note t = buildTokens_inherited_member_not_skipped
    [where c = ?c and palette = constructorPalette and ramps = Map.empty
       and cmp = localeCompare and mapping = demoMapping, OF h, unfolded Let_def]
  have n: "''  '' @ varNamePrimitive (color_id ?c) S100 @ '': undefined;''
      = ''  --c-constructor-100: undefined;''"
    by (simp add: name_eval)
  have p: "primitives (json (buildTokens localeCompare constructorPalette Map.empty demoMapping))
     = [(''--c-constructor-100'', None), (''--c-constructor-200'', None),
        (''--c-constructor-300'', None), (''--c-constructor-400'', None),
        (''--c-constructor-500'', None), (''--c-constructor-600'', None),
        (''--c-constructor-700'', None), (''--c-constructor-800'', None),
        (''--c-constructor-900'', None)]"
    unfolding json_primitives by (rule constructor_primitives)
  note l = t [THEN conjunct2, THEN spec, of S100, THEN conjunct2, unfolded n]
  from p l t [THEN conjunct1] show ?thesis by (intro conjI)
qed

text \<open>
  Claim C5. For the same palette, ramp map and mapping, \<open>--text-primary\<close> of the light
  theme references step 900 of the id in the \<open>textPrimary\<close> slot and \<open>--text-primary\<close> of
  the dark theme references step 100 of the id in its \<open>textPrimary\<close> slot. The primitives
  do not depend on the themes: \<open>json.primitives\<close> is the same for every mapping, and the
  \<open>:root\<close> block of the CSS is made of \<open>json.primitives\<close> alone.
\<close>

theorem buildTokens_theme_symmetry:
  "let b = buildTokens cmp palette ramps mapping;
       b' = buildTokens cmp palette ramps mapping'
   in map_of (themes (json b) Light) ''--text-primary''
        = Some (''var(--c-'' @ textPrimary (mapping Light) @ ''-900)'')
    \<and> map_of (themes (json b) Dark) ''--text-primary''
        = Some (''var(--c-'' @ textPrimary (mapping Dark) @ ''-100)'')
    \<and> primitives (json b) = primitives (json b')
    \<and> (\<exists>rest.
          tokenLines cmp (primitives (json b)) (themes (json b)) (components (json b))
            = ['':root {'', ''  /* Primitive ramps */'']
              @ map (\<lambda>k. varLine k (templateText (getPrimitive (primitives (json b')) k)))
                  (sortBy cmp (map fst (primitives (json b'))))
              @ [''}'', '''']
              @ rest)
    \<and> css b = joinLines
          (tokenLines cmp (primitives (json b)) (themes (json b)) (components (json b)))"
proof -
  have l: "map_of (semanticTokens Light (mapping Light)) ''--text-primary''
      = Some (''var(--c-'' @ textPrimary (mapping Light) @ ''-900)'')"
    by (simp add: semanticTokens_entries name_eval)
  have d: "map_of (semanticTokens Dark (mapping Dark)) ''--text-primary''
      = Some (''var(--c-'' @ textPrimary (mapping Dark) @ ''-100)'')"
    by (simp add: semanticTokens_entries name_eval)
  have "\<exists>rest. tokenLines cmp prims th co
            = ['':root {'', ''  /* Primitive ramps */'']
              @ map (\<lambda>k. varLine k (templateText (getPrimitive prims k))) (sortBy cmp (map fst prims))
              @ [''}'', '''']
              @ rest" for prims th co
    by (simp add: tokenLines_def Let_def)
  with l d show ?thesis
    unfolding Let_def json_primitives json_themes json_components css_tokenLines
    by (intro conjI refl)
qed

theorem buildTokens_theme_symmetry_witness:
  "map_of (themes (json (buildTokens localeCompare demoPalette demoRamps demoMapping)) Light)
      ''--text-primary'' = Some ''var(--c-ink-900)''
   \<and> map_of (themes (json (buildTokens localeCompare demoPalette demoRamps demoMapping)) Dark)
      ''--text-primary'' = Some ''var(--c-ink-100)''
   \<and> primitives (json (buildTokens localeCompare demoPalette demoRamps demoMapping))
     = primitives (json (buildTokens localeCompare demoPalette demoRamps ghostMapping))"
proof -
  note t = buildTokens_theme_symmetry
    [of localeCompare demoPalette demoRamps demoMapping ghostMapping, unfolded Let_def]
  have n: "textPrimary (demoMapping Light) = ''ink''" "textPrimary (demoMapping Dark) = ''ink''"
    by (simp_all add: demoMapping_def)
  have s: "''var(--c-'' @ ''ink'' @ ''-900)'' = ''var(--c-ink-900)''"
    "''var(--c-'' @ ''ink'' @ ''-100)'' = ''var(--c-ink-100)''"
    by simp_all
  from t [THEN conjunct1, unfolded n s] t [THEN conjunct2, THEN conjunct1, unfolded n s]
    t [THEN conjunct2, THEN conjunct2, THEN conjunct1]
  show ?thesis by (intro conjI)
qed

lemma case_primitives:
  "buildPrimitives casePalette caseRamps =
     [(''--c-Zed-100'', Some ''#00a100''), (''--c-Zed-200'', Some ''#00a200''),
      (''--c-Zed-300'', Some ''#00a300''), (''--c-Zed-400'', Some ''#00a400''),
      (''--c-Zed-500'', Some ''#00a500''), (''--c-Zed-600'', Some ''#00a600''),
      (''--c-Zed-700'', Some ''#00a700''), (''--c-Zed-800'', Some ''#00a800''),
      (''--c-Zed-900'', Some ''#00a900''), (''--c-apple-100'', Some ''#a00100''),
      (''--c-apple-200'', Some ''#a00200''), (''--c-apple-300'', Some ''#a00300''),
      (''--c-apple-400'', Some ''#a00400''), (''--c-apple-500'', Some ''#a00500''),
      (''--c-apple-600'', Some ''#a00600''), (''--c-apple-700'', Some ''#a00700''),
      (''--c-apple-800'', Some ''#a00800''), (''--c-apple-900'', Some ''#a00900'')]"
  by (simp add: buildPrimitives_def addRamp_def rampsAt_def casePalette_def caseRamps_def
      steps_def assign_def varNamePrimitive_def stepString_def)

lemmas collation_eval = localeCompare_def collationKey_def primaryWeight_def caseWeight_def
  punctuationOrder_def Let_def

lemma case_sorted_keys:
  "sortBy localeCompare
     [''--c-Zed-100'', ''--c-Zed-200'', ''--c-Zed-300'', ''--c-Zed-400'', ''--c-Zed-500'',
      ''--c-Zed-600'', ''--c-Zed-700'', ''--c-Zed-800'', ''--c-Zed-900'', ''--c-apple-100'',
      ''--c-apple-200'', ''--c-apple-300'', ''--c-apple-400'', ''--c-apple-500'',
      ''--c-apple-600'', ''--c-apple-700'', ''--c-apple-800'', ''--c-apple-900'']
   = [''--c-apple-100'', ''--c-apple-200'', ''--c-apple-300'', ''--c-apple-400'',
      ''--c-apple-500'', ''--c-apple-600'', ''--c-apple-700'', ''--c-apple-800'',
      ''--c-apple-900'', ''--c-Zed-100'', ''--c-Zed-200'', ''--c-Zed-300'', ''--c-Zed-400'',
      ''--c-Zed-500'', ''--c-Zed-600'', ''--c-Zed-700'', ''--c-Zed-800'', ''--c-Zed-900'']"
  by (simp add: sortBy_def collation_eval)

lemma case_code_unit_keys:
  "sortBy compareCodeUnits
     [''--c-Zed-100'', ''--c-Zed-200'', ''--c-Zed-300'', ''--c-Zed-400'', ''--c-Zed-500'',
      ''--c-Zed-600'', ''--c-Zed-700'', ''--c-Zed-800'', ''--c-Zed-900'', ''--c-apple-100'',
      ''--c-apple-200'', ''--c-apple-300'', ''--c-apple-400'', ''--c-apple-500'',
      ''--c-apple-600'', ''--c-apple-700'', ''--c-apple-800'', ''--c-apple-900'']
   = [''--c-Zed-100'', ''--c-Zed-200'', ''--c-Zed-300'', ''--c-Zed-400'', ''--c-Zed-500'',
      ''--c-Zed-600'', ''--c-Zed-700'', ''--c-Zed-800'', ''--c-Zed-900'', ''--c-apple-100'',
      ''--c-apple-200'', ''--c-apple-300'', ''--c-apple-400'', ''--c-apple-500'',
      ''--c-apple-600'', ''--c-apple-700'', ''--c-apple-800'', ''--c-apple-900'']"
  by (simp add: sortBy_def)

lemma case_lines:
  "tokenLines localeCompare (buildPrimitives casePalette caseRamps)
     (\<lambda>theme. semanticTokens theme (caseMapping theme))
     (\<lambda>theme. componentTokens (semanticTokens theme (caseMapping theme)))
   = ['':root {'',
      ''  /* Primitive ramps */'',
      ''  --c-apple-100: #a00100;'',
      ''  --c-apple-200: #a00200;'',
      ''  --c-apple-300: #a00300;'',
      ''  --c-apple-400: #a00400;'',
      ''  --c-apple-500: #a00500;'',
      ''  --c-apple-600: #a00600;'',
      ''  --c-apple-700: #a00700;'',
      ''  --c-apple-800: #a00800;'',
      ''  --c-apple-900: #a00900;'',
      ''  --c-Zed-100: #00a100;'',
      ''  --c-Zed-200: #00a200;'',
      ''  --c-Zed-300: #00a300;'',
      ''  --c-Zed-400: #00a400;'',
      ''  --c-Zed-500: #00a500;'',
      ''  --c-Zed-600: #00a600;'',
      ''  --c-Zed-700: #00a700;'',
      ''  --c-Zed-800: #00a800;'',
      ''  --c-Zed-900: #00a900;'',
      ''}'',
      '''',
      ''[data-theme=\"light\"] {'',
      ''  /* Semantic tokens */'',
      ''  --surface-primary: var(--c-Zed-100);'',
      ''  --surface-secondary: var(--c-Zed-200);'',
      ''  --surface-inverse: var(--c-apple-900);'',
      ''  --text-primary: var(--c-apple-900);'',
      ''  --text-secondary: var(--c-apple-700);'',
      ''  --text-muted: var(--c-apple-600);'',
      ''  --text-disabled: var(--c-apple-400);'',
      ''  --text-inverse: var(--c-Zed-100);'',
      ''  --border-default: var(--c-apple-300);'',
      ''  --border-strong: var(--c-apple-400);'',
      ''  --border-subtle: var(--c-apple-200);'',
      ''  --accent: var(--c-apple-500);'',
      ''  --accent-hover: var(--c-apple-600);'',
      ''  --accent-active: var(--c-apple-700);'',
      ''  --accent-inverse: var(--c-Zed-500);'',
      ''  --link: var(--c-apple-500);'',
      ''  --link-hover: var(--c-apple-600);'',
      ''  --link-active: var(--c-apple-700);'',
      '''',
      ''  /* Component tokens */'',
      ''  --btn-primary-bg: var(--c-apple-900);'',
      ''  --btn-primary-text: var(--c-Zed-100);'',
      ''  --btn-primary-bg-hover: var(--c-apple-600);'',
      ''  --btn-primary-bg-active: var(--c-apple-700);'',
      ''  --btn-primary-bg-disabled: var(--c-Zed-200);'',
      ''  --btn-primary-text-disabled: var(--c-apple-400);'',
      ''  --btn-secondary-bg: transparent;'',
      ''  --btn-secondary-text: var(--c-apple-900);'',
      ''  --btn-secondary-border: var(--c-apple-300);'',
      ''  --btn-secondary-bg-hover: var(--c-Zed-200);'',
      ''  --btn-secondary-bg-active: var(--c-Zed-200);'',
      ''  --btn-secondary-text-disabled: var(--c-apple-400);'',
      ''  --btn-secondary-border-disabled: var(--c-apple-200);'',
      ''  --input-bg: var(--c-Zed-100);'',
      ''  --input-text: var(--c-apple-900);'',
      ''  --input-placeholder: var(--c-apple-600);'',
      ''  --input-border: var(--c-apple-300);'',
      ''  --input-border-focus: var(--c-apple-500);'',
      ''  --input-bg-disabled: var(--c-Zed-200);'',
      ''  --input-text-disabled: var(--c-apple-400);'',
      ''}'',
      '''',
      ''[data-theme=\"dark\"] {'',
      ''  /* Semantic tokens */'',
      ''  --surface-primary: var(--c-Zed-900);'',
      ''  --surface-secondary: var(--c-Zed-800);'',
      ''  --surface-inverse: var(--c-apple-100);'',
      ''  --text-primary: var(--c-apple-100);'',
      ''  --text-secondary: var(--c-apple-200);'',
      ''  --text-muted: var(--c-apple-400);'',
      ''  --text-disabled: var(--c-apple-500);'',
      ''  --text-inverse: var(--c-Zed-900);'',
      ''  --border-default: var(--c-apple-700);'',
      ''  --border-strong: var(--c-apple-600);'',
      ''  --border-subtle: var(--c-apple-800);'',
      ''  --accent: var(--c-apple-500);'',
      ''  --accent-hover: var(--c-apple-600);'',
      ''  --accent-active: var(--c-apple-700);'',
      ''  --accent-inverse: var(--c-Zed-500);'',
      ''  --link: var(--c-apple-500);'',
      ''  --link-hover: var(--c-apple-600);'',
      ''  --link-active: var(--c-apple-700);'',
      '''',
      ''  /* Component tokens */'',
      ''  --btn-primary-bg: var(--c-apple-100);'',
      ''  --btn-primary-text: var(--c-Zed-900);'',
      ''  --btn-primary-bg-hover: var(--c-apple-600);'',
      ''  --btn-primary-bg-active: var(--c-apple-700);'',
      ''  --btn-primary-bg-disabled: var(--c-Zed-800);'',
      ''  --btn-primary-text-disabled: var(--c-apple-500);'',
      ''  --btn-secondary-bg: transparent;'',
      ''  --btn-secondary-text: var(--c-apple-100);'',
      ''  --btn-secondary-border: var(--c-apple-700);'',
      ''  --btn-secondary-bg-hover: var(--c-Zed-800);'',
      ''  --btn-secondary-bg-active: var(--c-Zed-800);'',
      ''  --btn-secondary-text-disabled: var(--c-apple-500);'',
      ''  --btn-secondary-border-disabled: var(--c-apple-800);'',
      ''  --input-bg: var(--c-Zed-900);'',
      ''  --input-text: var(--c-apple-100);'',
      ''  --input-placeholder: var(--c-apple-400);'',
      ''  --input-border: var(--c-apple-700);'',
      ''  --input-border-focus: var(--c-apple-500);'',
      ''  --input-bg-disabled: var(--c-Zed-800);'',
      ''  --input-text-disabled: var(--c-apple-500);'',
      ''}'',
      '''']"
  unfolding tokenLines_layout case_primitives componentTokens_semantic
  unfolding semanticTokens_entries
  by (simp add: case_sorted_keys caseMapping_def name_eval getPrimitive_def templateText_def)

lemma case_css:
  "css caseBundle
   =  '':root {\<newline>'' @
      ''  /* Primitive ramps */\<newline>'' @
      ''  --c-apple-100: #a00100;\<newline>'' @
      ''  --c-apple-200: #a00200;\<newline>'' @
      ''  --c-apple-300: #a00300;\<newline>'' @
      ''  --c-apple-400: #a00400;\<newline>'' @
      ''  --c-apple-500: #a00500;\<newline>'' @
      ''  --c-apple-600: #a00600;\<newline>'' @
      ''  --c-apple-700: #a00700;\<newline>'' @
      ''  --c-apple-800: #a00800;\<newline>'' @
      ''  --c-apple-900: #a00900;\<newline>'' @
      ''  --c-Zed-100: #00a100;\<newline>'' @
      ''  --c-Zed-200: #00a200;\<newline>'' @
      ''  --c-Zed-300: #00a300;\<newline>'' @
      ''  --c-Zed-400: #00a400;\<newline>'' @
      ''  --c-Zed-500: #00a500;\<newline>'' @
      ''  --c-Zed-600: #00a600;\<newline>'' @
      ''  --c-Zed-700: #00a700;\<newline>'' @
      ''  --c-Zed-800: #00a800;\<newline>'' @
      ''  --c-Zed-900: #00a900;\<newline>'' @
      ''}\<newline>'' @
      ''\<newline>'' @
      ''[data-theme=\"light\"] {\<newline>'' @
      ''  /* Semantic tokens */\<newline>'' @
      ''  --surface-primary: var(--c-Zed-100);\<newline>'' @
      ''  --surface-secondary: var(--c-Zed-200);\<newline>'' @
      ''  --surface-inverse: var(--c-apple-900);\<newline>'' @
      ''  --text-primary: var(--c-apple-900);\<newline>'' @
      ''  --text-secondary: var(--c-apple-700);\<newline>'' @
      ''  --text-muted: var(--c-apple-600);\<newline>'' @
      ''  --text-disabled: var(--c-apple-400);\<newline>'' @
      ''  --text-inverse: var(--c-Zed-100);\<newline>'' @
      ''  --border-default: var(--c-apple-300);\<newline>'' @
      ''  --border-strong: var(--c-apple-400);\<newline>'' @
      ''  --border-subtle: var(--c-apple-200);\<newline>'' @
      ''  --accent: var(--c-apple-500);\<newline>'' @
      ''  --accent-hover: var(--c-apple-600);\<newline>'' @
      ''  --accent-active: var(--c-apple-700);\<newline>'' @
      ''  --accent-inverse: var(--c-Zed-500);\<newline>'' @
      ''  --link: var(--c-apple-500);\<newline>'' @
      ''  --link-hover: var(--c-apple-600);\<newline>'' @
      ''  --link-active: var(--c-apple-700);\<newline>'' @
      ''\<newline>'' @
      ''  /* Component tokens */\<newline>'' @
      ''  --btn-primary-bg: var(--c-apple-900);\<newline>'' @
      ''  --btn-primary-text: var(--c-Zed-100);\<newline>'' @
      ''  --btn-primary-bg-hover: var(--c-apple-600);\<newline>'' @
      ''  --btn-primary-bg-active: var(--c-apple-700);\<newline>'' @
      ''  --btn-primary-bg-disabled: var(--c-Zed-200);\<newline>'' @
      ''  --btn-primary-text-disabled: var(--c-apple-400);\<newline>'' @
      ''  --btn-secondary-bg: transparent;\<newline>'' @
      ''  --btn-secondary-text: var(--c-apple-900);\<newline>'' @
      ''  --btn-secondary-border: var(--c-apple-300);\<newline>'' @
      ''  --btn-secondary-bg-hover: var(--c-Zed-200);\<newline>'' @
      ''  --btn-secondary-bg-active: var(--c-Zed-200);\<newline>'' @
      ''  --btn-secondary-text-disabled: var(--c-apple-400);\<newline>'' @
      ''  --btn-secondary-border-disabled: var(--c-apple-200);\<newline>'' @
      ''  --input-bg: var(--c-Zed-100);\<newline>'' @
      ''  --input-text: var(--c-apple-900);\<newline>'' @
      ''  --input-placeholder: var(--c-apple-600);\<newline>'' @
      ''  --input-border: var(--c-apple-300);\<newline>'' @
      ''  --input-border-focus: var(--c-apple-500);\<newline>'' @
      ''  --input-bg-disabled: var(--c-Zed-200);\<newline>'' @
      ''  --input-text-disabled: var(--c-apple-400);\<newline>'' @
      ''}\<newline>'' @
      ''\<newline>'' @
      ''[data-theme=\"dark\"] {\<newline>'' @
      ''  /* Semantic tokens */\<newline>'' @
      ''  --surface-primary: var(--c-Zed-900);\<newline>'' @
      ''  --surface-secondary: var(--c-Zed-800);\<newline>'' @
      ''  --surface-inverse: var(--c-apple-100);\<newline>'' @
      ''  --text-primary: var(--c-apple-100);\<newline>'' @
      ''  --text-secondary: var(--c-apple-200);\<newline>'' @
      ''  --text-muted: var(--c-apple-400);\<newline>'' @
      ''  --text-disabled: var(--c-apple-500);\<newline>'' @
      ''  --text-inverse: var(--c-Zed-900);\<newline>'' @
      ''  --border-default: var(--c-apple-700);\<newline>'' @
      ''  --border-strong: var(--c-apple-600);\<newline>'' @
      ''  --border-subtle: var(--c-apple-800);\<newline>'' @
      ''  --accent: var(--c-apple-500);\<newline>'' @
      ''  --accent-hover: var(--c-apple-600);\<newline>'' @
      ''  --accent-active: var(--c-apple-700);\<newline>'' @
      ''  --accent-inverse: var(--c-Zed-500);\<newline>'' @
      ''  --link: var(--c-apple-500);\<newline>'' @
      ''  --link-hover: var(--c-apple-600);\<newline>'' @
      ''  --link-active: var(--c-apple-700);\<newline>'' @
      ''\<newline>'' @
      ''  /* Component tokens */\<newline>'' @
      ''  --btn-primary-bg: var(--c-apple-100);\<newline>'' @
      ''  --btn-primary-text: var(--c-Zed-900);\<newline>'' @
      ''  --btn-primary-bg-hover: var(--c-apple-600);\<newline>'' @
      ''  --btn-primary-bg-active: var(--c-apple-700);\<newline>'' @
      ''  --btn-primary-bg-disabled: var(--c-Zed-800);\<newline>'' @
      ''  --btn-primary-text-disabled: var(--c-apple-500);\<newline>'' @
      ''  --btn-secondary-bg: transparent;\<newline>'' @
      ''  --btn-secondary-text: var(--c-apple-100);\<newline>'' @
      ''  --btn-secondary-border: var(--c-apple-700);\<newline>'' @
      ''  --btn-secondary-bg-hover: var(--c-Zed-800);\<newline>'' @
      ''  --btn-secondary-bg-active: var(--c-Zed-800);\<newline>'' @
      ''  --btn-secondary-text-disabled: var(--c-apple-500);\<newline>'' @
      ''  --btn-secondary-border-disabled: var(--c-apple-800);\<newline>'' @
      ''  --input-bg: var(--c-Zed-900);\<newline>'' @
      ''  --input-text: var(--c-apple-100);\<newline>'' @
      ''  --input-placeholder: var(--c-apple-400);\<newline>'' @
      ''  --input-border: var(--c-apple-700);\<newline>'' @
      ''  --input-border-focus: var(--c-apple-500);\<newline>'' @
      ''  --input-bg-disabled: var(--c-Zed-800);\<newline>'' @
      ''  --input-text-disabled: var(--c-apple-500);\<newline>'' @
      ''}\<newline>''"
  unfolding caseBundle_def css_tokenLines case_lines by simp

text \<open>
  Claim C6, as amended. For every input, the CSS string of \<open>buildTokens\<close> is the lines
  below joined by newlines: one \<open>:root\<close> block that declares every primitive once, the
  keys sorted by the comparison \<open>localeCompare\<close> of the host, then one block for the light
  and one for the dark theme, each with the semantic declarations and then the component
  declarations in the order of their assignment. The semantic values are
  \<open>var(<primitive name>)\<close>; the component values are \<open>var(<primitive name>)\<close> or the
  literal \<open>transparent\<close>. The comparison is a parameter, a strict order: no key is followed
  by a key that compares before it, and when the comparison orders every two different
  strings, as \<^const>\<open>localeCompare\<close> does, the keys ascend strictly.
\<close>

theorem buildTokens_css_layout:
  assumes "\<forall>a b. cmp a b < 0 \<longrightarrow> \<not> cmp b a < 0"
    and "\<forall>a b c. cmp a b < 0 \<and> cmp b c < 0 \<longrightarrow> cmp a c < 0"
  shows
    "let b = buildTokens cmp palette ramps mapping;
         prims = primitives (json b); th = themes (json b); co = components (json b)
     in (\<exists>keys.
          css b = joinLines
            (['':root {'', ''  /* Primitive ramps */'']
             @ map (\<lambda>k. ''  '' @ k @ '': '' @ templateText (getPrimitive prims k) @ '';'') keys
             @ [''}'', '''']
             @ [''[data-theme=\"light\"] {'', ''  /* Semantic tokens */'']
             @ map (\<lambda>(k, v). ''  '' @ k @ '': '' @ v @ '';'') (th Light)
             @ ['''', ''  /* Component tokens */'']
             @ map (\<lambda>(k, v). ''  '' @ k @ '': '' @ v @ '';'') (co Light)
             @ [''}'', '''']
             @ [''[data-theme=\"dark\"] {'', ''  /* Semantic tokens */'']
             @ map (\<lambda>(k, v). ''  '' @ k @ '': '' @ v @ '';'') (th Dark)
             @ ['''', ''  /* Component tokens */'']
             @ map (\<lambda>(k, v). ''  '' @ k @ '': '' @ v @ '';'') (co Dark)
             @ [''}'', ''''])
          \<and> set keys = fst ` set prims \<and> distinct keys
          \<and> sorted_wrt (\<lambda>x y. \<not> cmp y x < 0) keys
          \<and> ((\<forall>x y. x \<noteq> y \<longrightarrow> cmp x y < 0 \<or> cmp y x < 0)
                \<longrightarrow> sorted_wrt (\<lambda>x y. cmp x y < 0) keys)
          \<and> (\<forall>k \<in> set keys. map_of prims k = Some (getPrimitive prims k)))
      \<and> (\<forall>theme.
            map fst (th theme) =
              [''--surface-primary'', ''--surface-secondary'', ''--surface-inverse'',
               ''--text-primary'', ''--text-secondary'', ''--text-muted'', ''--text-disabled'',
               ''--text-inverse'', ''--border-default'', ''--border-strong'',
               ''--border-subtle'', ''--accent'', ''--accent-hover'', ''--accent-active'',
               ''--accent-inverse'', ''--link'', ''--link-hover'', ''--link-active'']
          \<and> map fst (co theme) =
              [''--btn-primary-bg'', ''--btn-primary-text'', ''--btn-primary-bg-hover'',
               ''--btn-primary-bg-active'', ''--btn-primary-bg-disabled'',
               ''--btn-primary-text-disabled'', ''--btn-secondary-bg'', ''--btn-secondary-text'',
               ''--btn-secondary-border'', ''--btn-secondary-bg-hover'',
               ''--btn-secondary-bg-active'', ''--btn-secondary-text-disabled'',
               ''--btn-secondary-border-disabled'', ''--input-bg'', ''--input-text'',
               ''--input-placeholder'', ''--input-border'', ''--input-border-focus'',
               ''--input-bg-disabled'', ''--input-text-disabled'']
          \<and> (\<forall>v \<in> snd ` set (th theme).
                \<exists>ident s. v = ''var('' @ varNamePrimitive ident s @ '')'')
          \<and> (\<forall>v \<in> snd ` set (co theme).
                v = ''transparent''
                \<or> (\<exists>ident s. v = ''var('' @ varNamePrimitive ident s @ '')'')))"
proof -
  let ?prims = "buildPrimitives palette ramps"
  let ?th = "\<lambda>theme. semanticTokens theme (mapping theme)"
  let ?co = "\<lambda>theme. componentTokens (?th theme)"
  let ?keys = "sortBy cmp (map fst ?prims)"
  have asym: "\<And>a b. cmp a b < 0 \<Longrightarrow> \<not> cmp b a < 0"
    and trans: "\<And>a b c. cmp a b < 0 \<Longrightarrow> cmp b c < 0 \<Longrightarrow> cmp a c < 0"
    using assms by blast+
  have k1: "set ?keys = fst ` set ?prims" by (simp add: set_sortBy)
  have k2: "distinct ?keys" by (simp add: distinct_sortBy distinct_buildPrimitives)
  have k3: "sorted_wrt (\<lambda>x y. \<not> cmp y x < 0) ?keys"
    by (rule sorted_sortBy [OF asym trans])
  have k4: "\<forall>k \<in> set ?keys. map_of ?prims k = Some (getPrimitive ?prims k)"
    unfolding k1 by (simp add: getPrimitive_key)
  have k5: "(\<forall>x y. x \<noteq> y \<longrightarrow> cmp x y < 0 \<or> cmp y x < 0)
      \<longrightarrow> sorted_wrt (\<lambda>x y. cmp x y < 0) ?keys"
  proof
    assume "\<forall>x y. x \<noteq> y \<longrightarrow> cmp x y < 0 \<or> cmp y x < 0"
    then have "\<And>a b. a \<noteq> b \<Longrightarrow> cmp a b < 0 \<or> cmp b a < 0" by blast
    from strict_sorted [of cmp, OF this k3 k2] show "sorted_wrt (\<lambda>x y. cmp x y < 0) ?keys" .
  qed
  have root: "\<exists>keys.
      joinLines (tokenLines cmp ?prims ?th ?co) = joinLines
            (['':root {'', ''  /* Primitive ramps */'']
             @ map (\<lambda>k. ''  '' @ k @ '': '' @ templateText (getPrimitive ?prims k) @ '';'') keys
             @ [''}'', '''']
             @ [''[data-theme=\"light\"] {'', ''  /* Semantic tokens */'']
             @ map (\<lambda>(k, v). ''  '' @ k @ '': '' @ v @ '';'') (?th Light)
             @ ['''', ''  /* Component tokens */'']
             @ map (\<lambda>(k, v). ''  '' @ k @ '': '' @ v @ '';'') (?co Light)
             @ [''}'', '''']
             @ [''[data-theme=\"dark\"] {'', ''  /* Semantic tokens */'']
             @ map (\<lambda>(k, v). ''  '' @ k @ '': '' @ v @ '';'') (?th Dark)
             @ ['''', ''  /* Component tokens */'']
             @ map (\<lambda>(k, v). ''  '' @ k @ '': '' @ v @ '';'') (?co Dark)
             @ [''}'', ''''])
          \<and> set keys = fst ` set ?prims \<and> distinct keys
          \<and> sorted_wrt (\<lambda>x y. \<not> cmp y x < 0) keys
          \<and> ((\<forall>x y. x \<noteq> y \<longrightarrow> cmp x y < 0 \<or> cmp y x < 0)
                \<longrightarrow> sorted_wrt (\<lambda>x y. cmp x y < 0) keys)
          \<and> (\<forall>k \<in> set keys. map_of ?prims k = Some (getPrimitive ?prims k))"
    unfolding tokenLines_layout using k1 k2 k3 k5 k4 by (intro exI [of _ ?keys] conjI refl)
  have sv: "\<forall>v \<in> snd ` set (?th theme).
      \<exists>ident s. v = ''var('' @ varNamePrimitive ident s @ '')''" for theme
    using semantic_values [of _ theme "mapping theme"] unfolding varRef_def by blast
  have cv: "\<forall>v \<in> snd ` set (?co theme).
      v = ''transparent'' \<or> (\<exists>ident s. v = ''var('' @ varNamePrimitive ident s @ '')'')"
    for theme
    using component_values [of _ theme "mapping theme"] unfolding varRef_def by blast
  show ?thesis
    unfolding Let_def json_primitives json_themes json_components css_tokenLines
    using root sv cv semantic_keys component_keys by (intro conjI allI)
qed

lemma sorted_keys_strict:
  assumes "\<exists>keys. A keys \<and> B keys \<and> C keys \<and> D keys \<and> (T \<longrightarrow> E keys) \<and> F keys" and "T"
  shows "\<exists>keys. A keys \<and> B keys \<and> C keys \<and> E keys"
  using assms by blast

theorem buildTokens_css_layout_witness:
  "(\<exists>keys.
      css caseBundle = joinLines
        (['':root {'', ''  /* Primitive ramps */'']
         @ map (\<lambda>k. ''  '' @ k @ '': '' @ templateText (getPrimitive (primitives (json caseBundle)) k) @ '';'') keys
         @ [''}'', '''']
         @ [''[data-theme=\"light\"] {'', ''  /* Semantic tokens */'']
         @ map (\<lambda>(k, v). ''  '' @ k @ '': '' @ v @ '';'') (themes (json caseBundle) Light)
         @ ['''', ''  /* Component tokens */'']
         @ map (\<lambda>(k, v). ''  '' @ k @ '': '' @ v @ '';'') (components (json caseBundle) Light)
         @ [''}'', '''']
         @ [''[data-theme=\"dark\"] {'', ''  /* Semantic tokens */'']
         @ map (\<lambda>(k, v). ''  '' @ k @ '': '' @ v @ '';'') (themes (json caseBundle) Dark)
         @ ['''', ''  /* Component tokens */'']
         @ map (\<lambda>(k, v). ''  '' @ k @ '': '' @ v @ '';'') (components (json caseBundle) Dark)
         @ [''}'', ''''])
      \<and> set keys = fst ` set (primitives (json caseBundle))
      \<and> distinct keys
      \<and> sorted_wrt (\<lambda>x y. localeCompare x y < 0) keys)
   \<and> sortBy localeCompare (map fst (primitives (json caseBundle)))
     = [''--c-apple-100'', ''--c-apple-200'', ''--c-apple-300'', ''--c-apple-400'',
        ''--c-apple-500'', ''--c-apple-600'', ''--c-apple-700'', ''--c-apple-800'',
        ''--c-apple-900'', ''--c-Zed-100'', ''--c-Zed-200'', ''--c-Zed-300'', ''--c-Zed-400'',
        ''--c-Zed-500'', ''--c-Zed-600'', ''--c-Zed-700'', ''--c-Zed-800'', ''--c-Zed-900'']
   \<and> css caseBundle
   =  '':root {\<newline>'' @
      ''  /* Primitive ramps */\<newline>'' @
      ''  --c-apple-100: #a00100;\<newline>'' @
      ''  --c-apple-200: #a00200;\<newline>'' @
      ''  --c-apple-300: #a00300;\<newline>'' @
      ''  --c-apple-400: #a00400;\<newline>'' @
      ''  --c-apple-500: #a00500;\<newline>'' @
      ''  --c-apple-600: #a00600;\<newline>'' @
      ''  --c-apple-700: #a00700;\<newline>'' @
      ''  --c-apple-800: #a00800;\<newline>'' @
      ''  --c-apple-900: #a00900;\<newline>'' @
      ''  --c-Zed-100: #00a100;\<newline>'' @
      ''  --c-Zed-200: #00a200;\<newline>'' @
      ''  --c-Zed-300: #00a300;\<newline>'' @
      ''  --c-Zed-400: #00a400;\<newline>'' @
      ''  --c-Zed-500: #00a500;\<newline>'' @
      ''  --c-Zed-600: #00a600;\<newline>'' @
      ''  --c-Zed-700: #00a700;\<newline>'' @
      ''  --c-Zed-800: #00a800;\<newline>'' @
      ''  --c-Zed-900: #00a900;\<newline>'' @
      ''}\<newline>'' @
      ''\<newline>'' @
      ''[data-theme=\"light\"] {\<newline>'' @
      ''  /* Semantic tokens */\<newline>'' @
      ''  --surface-primary: var(--c-Zed-100);\<newline>'' @
      ''  --surface-secondary: var(--c-Zed-200);\<newline>'' @
      ''  --surface-inverse: var(--c-apple-900);\<newline>'' @
      ''  --text-primary: var(--c-apple-900);\<newline>'' @
      ''  --text-secondary: var(--c-apple-700);\<newline>'' @
      ''  --text-muted: var(--c-apple-600);\<newline>'' @
      ''  --text-disabled: var(--c-apple-400);\<newline>'' @
      ''  --text-inverse: var(--c-Zed-100);\<newline>'' @
      ''  --border-default: var(--c-apple-300);\<newline>'' @
      ''  --border-strong: var(--c-apple-400);\<newline>'' @
      ''  --border-subtle: var(--c-apple-200);\<newline>'' @
      ''  --accent: var(--c-apple-500);\<newline>'' @
      ''  --accent-hover: var(--c-apple-600);\<newline>'' @
      ''  --accent-active: var(--c-apple-700);\<newline>'' @
      ''  --accent-inverse: var(--c-Zed-500);\<newline>'' @
      ''  --link: var(--c-apple-500);\<newline>'' @
      ''  --link-hover: var(--c-apple-600);\<newline>'' @
      ''  --link-active: var(--c-apple-700);\<newline>'' @
      ''\<newline>'' @
      ''  /* Component tokens */\<newline>'' @
      ''  --btn-primary-bg: var(--c-apple-900);\<newline>'' @
      ''  --btn-primary-text: var(--c-Zed-100);\<newline>'' @
      ''  --btn-primary-bg-hover: var(--c-apple-600);\<newline>'' @
      ''  --btn-primary-bg-active: var(--c-apple-700);\<newline>'' @
      ''  --btn-primary-bg-disabled: var(--c-Zed-200);\<newline>'' @
      ''  --btn-primary-text-disabled: var(--c-apple-400);\<newline>'' @
      ''  --btn-secondary-bg: transparent;\<newline>'' @
      ''  --btn-secondary-text: var(--c-apple-900);\<newline>'' @
      ''  --btn-secondary-border: var(--c-apple-300);\<newline>'' @
      ''  --btn-secondary-bg-hover: var(--c-Zed-200);\<newline>'' @
      ''  --btn-secondary-bg-active: var(--c-Zed-200);\<newline>'' @
      ''  --btn-secondary-text-disabled: var(--c-apple-400);\<newline>'' @
      ''  --btn-secondary-border-disabled: var(--c-apple-200);\<newline>'' @
      ''  --input-bg: var(--c-Zed-100);\<newline>'' @
      ''  --input-text: var(--c-apple-900);\<newline>'' @
      ''  --input-placeholder: var(--c-apple-600);\<newline>'' @
      ''  --input-border: var(--c-apple-300);\<newline>'' @
      ''  --input-border-focus: var(--c-apple-500);\<newline>'' @
      ''  --input-bg-disabled: var(--c-Zed-200);\<newline>'' @
      ''  --input-text-disabled: var(--c-apple-400);\<newline>'' @
      ''}\<newline>'' @
      ''\<newline>'' @
      ''[data-theme=\"dark\"] {\<newline>'' @
      ''  /* Semantic tokens */\<newline>'' @
      ''  --surface-primary: var(--c-Zed-900);\<newline>'' @
      ''  --surface-secondary: var(--c-Zed-800);\<newline>'' @
      ''  --surface-inverse: var(--c-apple-100);\<newline>'' @
      ''  --text-primary: var(--c-apple-100);\<newline>'' @
      ''  --text-secondary: var(--c-apple-200);\<newline>'' @
      ''  --text-muted: var(--c-apple-400);\<newline>'' @
      ''  --text-disabled: var(--c-apple-500);\<newline>'' @
      ''  --text-inverse: var(--c-Zed-900);\<newline>'' @
      ''  --border-default: var(--c-apple-700);\<newline>'' @
      ''  --border-strong: var(--c-apple-600);\<newline>'' @
      ''  --border-subtle: var(--c-apple-800);\<newline>'' @
      ''  --accent: var(--c-apple-500);\<newline>'' @
      ''  --accent-hover: var(--c-apple-600);\<newline>'' @
      ''  --accent-active: var(--c-apple-700);\<newline>'' @
      ''  --accent-inverse: var(--c-Zed-500);\<newline>'' @
      ''  --link: var(--c-apple-500);\<newline>'' @
      ''  --link-hover: var(--c-apple-600);\<newline>'' @
      ''  --link-active: var(--c-apple-700);\<newline>'' @
      ''\<newline>'' @
      ''  /* Component tokens */\<newline>'' @
      ''  --btn-primary-bg: var(--c-apple-100);\<newline>'' @
      ''  --btn-primary-text: var(--c-Zed-900);\<newline>'' @
      ''  --btn-primary-bg-hover: var(--c-apple-600);\<newline>'' @
      ''  --btn-primary-bg-active: var(--c-apple-700);\<newline>'' @
      ''  --btn-primary-bg-disabled: var(--c-Zed-800);\<newline>'' @
      ''  --btn-primary-text-disabled: var(--c-apple-500);\<newline>'' @
      ''  --btn-secondary-bg: transparent;\<newline>'' @
      ''  --btn-secondary-text: var(--c-apple-100);\<newline>'' @
      ''  --btn-secondary-border: var(--c-apple-700);\<newline>'' @
      ''  --btn-secondary-bg-hover: var(--c-Zed-800);\<newline>'' @
      ''  --btn-secondary-bg-active: var(--c-Zed-800);\<newline>'' @
      ''  --btn-secondary-text-disabled: var(--c-apple-500);\<newline>'' @
      ''  --btn-secondary-border-disabled: var(--c-apple-800);\<newline>'' @
      ''  --input-bg: var(--c-Zed-900);\<newline>'' @
      ''  --input-text: var(--c-apple-100);\<newline>'' @
      ''  --input-placeholder: var(--c-apple-400);\<newline>'' @
      ''  --input-border: var(--c-apple-700);\<newline>'' @
      ''  --input-border-focus: var(--c-apple-500);\<newline>'' @
      ''  --input-bg-disabled: var(--c-Zed-800);\<newline>'' @
      ''  --input-text-disabled: var(--c-apple-500);\<newline>'' @
      ''}\<newline>''"
proof -
  have asym: "\<forall>a b. localeCompare a b < 0 \<longrightarrow> \<not> localeCompare b a < 0"
    using localeCompare_asym by blast
  have trans: "\<forall>a b c. localeCompare a b < 0 \<and> localeCompare b c < 0
         \<longrightarrow> localeCompare a c < 0"
    using localeCompare_trans by blast
  have total: "\<forall>x y. x \<noteq> y \<longrightarrow> localeCompare x y < 0 \<or> localeCompare y x < 0"
    using localeCompare_total by blast
  note t = buildTokens_css_layout
    [of localeCompare casePalette caseRamps caseMapping, OF asym trans, unfolded Let_def,
     folded caseBundle_def]
  note w = sorted_keys_strict [OF t [THEN conjunct1] total]
  have keys: "sortBy localeCompare (map fst (primitives (json caseBundle)))
     = [''--c-apple-100'', ''--c-apple-200'', ''--c-apple-300'', ''--c-apple-400'',
        ''--c-apple-500'', ''--c-apple-600'', ''--c-apple-700'', ''--c-apple-800'',
        ''--c-apple-900'', ''--c-Zed-100'', ''--c-Zed-200'', ''--c-Zed-300'', ''--c-Zed-400'',
        ''--c-Zed-500'', ''--c-Zed-600'', ''--c-Zed-700'', ''--c-Zed-800'', ''--c-Zed-900'']"
    unfolding caseBundle_def json_primitives case_primitives by (simp add: case_sorted_keys)
  from w keys case_css show ?thesis by (intro conjI)
qed

text \<open>
  The keys of the \<open>:root\<close> block are not in the lexicographic order of the strings: with
  the ids \<open>Zed\<close> and \<open>apple\<close>, the declarations of \<open>apple\<close> come first, as \<open>localeCompare\<close>
  puts them, while the code unit of \<open>Z\<close> is less than that of \<open>a\<close>, which puts \<open>--c-Zed-100\<close>
  before \<open>--c-apple-100\<close> in the lexicographic order.
\<close>

theorem buildTokens_css_order_counterexample:
  "tokenLines localeCompare
      (primitives (json caseBundle))
      (themes (json caseBundle))
      (components (json caseBundle)) ! 2
     = ''  --c-apple-100: #a00100;''
   \<and> tokenLines localeCompare
      (primitives (json caseBundle))
      (themes (json caseBundle))
      (components (json caseBundle)) ! 11
     = ''  --c-Zed-100: #00a100;''
   \<and> css caseBundle
     = joinLines (tokenLines localeCompare
      (primitives (json caseBundle))
      (themes (json caseBundle))
      (components (json caseBundle)))
   \<and> compareCodeUnits ''--c-Zed-100'' ''--c-apple-100'' < 0
   \<and> sortBy compareCodeUnits
       (map fst (primitives (json caseBundle)))
     = [''--c-Zed-100'', ''--c-Zed-200'', ''--c-Zed-300'', ''--c-Zed-400'', ''--c-Zed-500'',
        ''--c-Zed-600'', ''--c-Zed-700'', ''--c-Zed-800'', ''--c-Zed-900'', ''--c-apple-100'',
        ''--c-apple-200'', ''--c-apple-300'', ''--c-apple-400'', ''--c-apple-500'',
        ''--c-apple-600'', ''--c-apple-700'', ''--c-apple-800'', ''--c-apple-900'']"
proof -
  have l: "tokenLines localeCompare (buildPrimitives casePalette caseRamps)
      (\<lambda>theme. semanticTokens theme (caseMapping theme))
      (\<lambda>theme. componentTokens (semanticTokens theme (caseMapping theme))) ! 2
     = ''  --c-apple-100: #a00100;''"
    "tokenLines localeCompare (buildPrimitives casePalette caseRamps)
      (\<lambda>theme. semanticTokens theme (caseMapping theme))
      (\<lambda>theme. componentTokens (semanticTokens theme (caseMapping theme))) ! 11
     = ''  --c-Zed-100: #00a100;''"
    unfolding case_lines by simp_all
  have c: "compareCodeUnits ''--c-Zed-100'' ''--c-apple-100'' < 0" by simp
  have k: "sortBy compareCodeUnits (map fst (buildPrimitives casePalette caseRamps))
     = [''--c-Zed-100'', ''--c-Zed-200'', ''--c-Zed-300'', ''--c-Zed-400'', ''--c-Zed-500'',
        ''--c-Zed-600'', ''--c-Zed-700'', ''--c-Zed-800'', ''--c-Zed-900'', ''--c-apple-100'',
        ''--c-apple-200'', ''--c-apple-300'', ''--c-apple-400'', ''--c-apple-500'',
        ''--c-apple-600'', ''--c-apple-700'', ''--c-apple-800'', ''--c-apple-900'']"
    unfolding case_primitives by (simp add: case_code_unit_keys)
  have th: "themes (json caseBundle)
      = (\<lambda>theme. semanticTokens theme (caseMapping theme))"
    and co: "components (json caseBundle)
      = (\<lambda>theme. componentTokens (semanticTokens theme (caseMapping theme)))"
    by (simp_all add: caseBundle_def buildTokens_def Let_def)
  have p: "primitives (json caseBundle) = buildPrimitives casePalette caseRamps"
    by (simp add: caseBundle_def json_primitives)
  have s: "css caseBundle = joinLines
      (tokenLines localeCompare (buildPrimitives casePalette caseRamps)
        (\<lambda>theme. semanticTokens theme (caseMapping theme))
        (\<lambda>theme. componentTokens (semanticTokens theme (caseMapping theme))))"
    by (simp add: caseBundle_def css_tokenLines)
  show ?thesis
    unfolding p th co using l c k s by (intro conjI)
qed

end
